theory Spec2Isabelle
  imports Complex_Main "HOL-Library.Word"
begin

section \<open>Binary32 arithmetic\<close>

text \<open>
  The C++ type \<open>float\<close> is IEEE 754 binary32: a finite value, an infinity or NaN. Every
  operation rounds its exact result to the nearest representable value, ties to the even
  significand, each operation on its own (the source is taken as written, with no
  contraction into fused multiply-add). The sign of zero is not modelled: zeros compare
  equal, and no divisor in the source is a negative zero, each being a literal, a square
  root of a sum of squares, a mean of such roots, an image dimension converted to
  \<open>float\<close> (dimensions are not negative), a quotient of two dimensions, or a
  configuration value tested positive before the division.

  The type \<open>double\<close> is modelled as an exact real: the source copies doubles that OpenCV
  returns, converts them to \<open>float\<close>, and forms the two products \<open>count * 0.3\<close> and
  \<open>0.035 * peri\<close>. The distance of a \<open>cv::DMatch\<close> is likewise an exact real: the
  matcher returns Hamming distances, integers for which the product with \<open>0.75f\<close> is exact.
  The C type \<open>int\<close> is modelled as an unbounded integer: the source only compares, counts
  and copies its integers, and multiplies the two dimensions of an image, which stays within
  32 bits for every image of fewer than \<open>2 ^ 31\<close> pixels. Every function of OpenCV is a
  field of the record \<open>cv\<close>, a total function of its arguments: the program is verified for
  every value the library may return, and an exception thrown inside the library is outside
  the model.
\<close>

datatype float = Finite real | PInf | NInf | NaN

text \<open>Rounding a real to the nearest integer, ties to even.\<close>

definition round_even :: "real \<Rightarrow> int" where
  "round_even x =
     (let f = \<lfloor>x\<rfloor>; r = x - of_int f
      in if r < 1 / 2 then f
         else if r > 1 / 2 then f + 1
         else if even f then f else f + 1)"

text \<open>
  Rounding a real to binary32: 24 significant bits, the unit in the last place never below
  \<open>2 powi - 149\<close> (gradual underflow), a result of magnitude \<open>2 ^ 128\<close> or more replaced
  by the infinity of the same sign.
\<close>

definition round32 :: "real \<Rightarrow> float" where
  "round32 x =
     (let e = max (\<lfloor>log 2 \<bar>x\<bar>\<rfloor> - 23) (- 149);
          y = of_int (round_even (x / 2 powi e)) * 2 powi e
      in if x = 0 then Finite 0
         else if \<bar>y\<bar> \<ge> 2 ^ 128 then (if x > 0 then PInf else NInf)
         else Finite y)"

text \<open>
  A \<open>float\<close> literal of the source such as \<open>0.3f\<close> (a literal that is a small
  integer, such as \<open>3.0f\<close>, is written \<open>Finite 3\<close>), and the conversions
  \<open>static_cast<float>\<close> from \<open>int\<close> and from \<open>double\<close>.
\<close>

definition f32 :: "real \<Rightarrow> float" where
  "f32 x = round32 x"

definition float_of_int :: "int \<Rightarrow> float" where
  "float_of_int i = round32 (of_int i)"

definition float_of_double :: "real \<Rightarrow> float" where
  "float_of_double d = round32 d"

fun fneg :: "float \<Rightarrow> float" where
  "fneg (Finite a) = Finite (- a)"
| "fneg PInf = NInf"
| "fneg NInf = PInf"
| "fneg NaN = NaN"

text \<open>\<open>std::abs\<close> on a \<open>float\<close>.\<close>

fun fabs :: "float \<Rightarrow> float" where
  "fabs (Finite a) = Finite \<bar>a\<bar>"
| "fabs PInf = PInf"
| "fabs NInf = PInf"
| "fabs NaN = NaN"

fun fadd :: "float \<Rightarrow> float \<Rightarrow> float" where
  "fadd (Finite a) (Finite b) = round32 (a + b)"
| "fadd NaN _ = NaN"
| "fadd _ NaN = NaN"
| "fadd PInf NInf = NaN"
| "fadd NInf PInf = NaN"
| "fadd PInf _ = PInf"
| "fadd _ PInf = PInf"
| "fadd NInf _ = NInf"
| "fadd _ NInf = NInf"

definition fsub :: "float \<Rightarrow> float \<Rightarrow> float" where
  "fsub x y = fadd x (fneg y)"

fun fmul :: "float \<Rightarrow> float \<Rightarrow> float" where
  "fmul (Finite a) (Finite b) = round32 (a * b)"
| "fmul NaN _ = NaN"
| "fmul _ NaN = NaN"
| "fmul PInf (Finite b) = (if b = 0 then NaN else if b > 0 then PInf else NInf)"
| "fmul NInf (Finite b) = (if b = 0 then NaN else if b > 0 then NInf else PInf)"
| "fmul (Finite a) PInf = (if a = 0 then NaN else if a > 0 then PInf else NInf)"
| "fmul (Finite a) NInf = (if a = 0 then NaN else if a > 0 then NInf else PInf)"
| "fmul PInf PInf = PInf"
| "fmul PInf NInf = NInf"
| "fmul NInf PInf = NInf"
| "fmul NInf NInf = PInf"

text \<open>Division; a zero divisor is the positive zero.\<close>

fun fdiv :: "float \<Rightarrow> float \<Rightarrow> float" where
  "fdiv (Finite a) (Finite b) =
     (if b = 0 then (if a = 0 then NaN else if a > 0 then PInf else NInf)
      else round32 (a / b))"
| "fdiv NaN _ = NaN"
| "fdiv _ NaN = NaN"
| "fdiv (Finite a) PInf = Finite 0"
| "fdiv (Finite a) NInf = Finite 0"
| "fdiv PInf (Finite b) = (if b < 0 then NInf else PInf)"
| "fdiv NInf (Finite b) = (if b < 0 then PInf else NInf)"
| "fdiv PInf PInf = NaN"
| "fdiv PInf NInf = NaN"
| "fdiv NInf PInf = NaN"
| "fdiv NInf NInf = NaN"

text \<open>\<open>std::sqrt\<close> on a \<open>float\<close>, correctly rounded as IEEE 754 requires.\<close>

fun fsqrt :: "float \<Rightarrow> float" where
  "fsqrt (Finite a) = (if a < 0 then NaN else round32 (sqrt a))"
| "fsqrt PInf = PInf"
| "fsqrt NInf = NaN"
| "fsqrt NaN = NaN"

text \<open>The comparison \<open><\<close>: false whenever an operand is NaN. \<open>a > b\<close> is \<open>flt b a\<close>.\<close>

fun flt :: "float \<Rightarrow> float \<Rightarrow> bool" where
  "flt (Finite a) (Finite b) = (a < b)"
| "flt NaN _ = False"
| "flt _ NaN = False"
| "flt _ NInf = False"
| "flt PInf _ = False"
| "flt NInf _ = True"
| "flt _ PInf = True"

text \<open>\<open>std::min(a, b)\<close> is \<open>(b < a) ? b : a\<close> and \<open>std::max(a, b)\<close> is \<open>(a < b) ? b : a\<close>.\<close>

definition fmin :: "float \<Rightarrow> float \<Rightarrow> float" where
  "fmin a b = (if flt b a then b else a)"

definition fmax :: "float \<Rightarrow> float \<Rightarrow> float" where
  "fmax a b = (if flt a b then b else a)"

section \<open>Data model of homography\_api\<close>

datatype Point2f = Point2f (pt_x: float) (pt_y: float)

datatype Point = Point (ipt_x: int) (ipt_y: int)

datatype Point3f = Point3f float float float

text \<open>\<open>cv::Mat\<close>: the dimensions and the element accessor \<open>at(i, j)\<close>.\<close>

record 'a Mat =
  rows :: int
  cols :: int
  elem :: "nat \<Rightarrow> nat \<Rightarrow> 'a"

definition empty_Mat :: "'a Mat \<Rightarrow> bool" where
  "empty_Mat m = (rows m = 0 \<or> cols m = 0)"

datatype KeyPoint = KeyPoint (pt: Point2f)

record DMatch =
  queryIdx :: int
  trainIdx :: int
  distance :: real

record HomographyResult =
  center_x :: float
  center_y :: float
  rotation :: float
  scale :: float
  homography :: "real list"
  corners :: "float list"
  num_matches :: int
  status :: int

text \<open>
  The fields of \<open>PaperDetectionResult\<close> carry the prefix \<open>pd_\<close>: five of them have
  the names of fields of \<open>HomographyResult\<close>.
\<close>

record PaperDetectionResult =
  pd_corners :: "float list"
  pd_center_x :: float
  pd_center_y :: float
  pd_homography :: "real list"
  pd_rvec :: "real list"
  pd_tvec :: "real list"
  pd_area :: float
  pd_perimeter :: float
  pd_aspect_ratio :: float
  pd_status :: int

record PaperDetectionConfig =
  canny_threshold1 :: int
  canny_threshold2 :: int
  blur_kernel_size :: int
  min_area_ratio :: float
  max_area_ratio :: float
  expected_aspect_ratio :: float
  aspect_ratio_tolerance :: float
  paper_width_mm :: float
  paper_height_mm :: float
  focal_length :: float
  cx :: float
  cy :: float

text \<open>Reading past the end of an array or vector is undefined behaviour in the source.\<close>

datatype error = OutOfBounds

text \<open>The calls into OpenCV that the matching pipeline makes, in the order made.\<close>

datatype cv_call = DetectAndCompute | KnnMatch | FindHomography | PerspectiveTransform

type_synonym Vec3 = "real \<times> real \<times> real"

text \<open>
  The library: OpenCV, and \<open>std::atan2\<close> of \<open><cmath>\<close>, for which the C standard
  fixes no rounding. The tolerance of \<open>approxPolyDP\<close> and the camera matrix of
  \<open>solvePnP\<close> are doubles that the source builds from floats: they are carried in the
  type \<open>float\<close>, without rounding.
\<close>

record cv =
  detectAndCompute :: "8 word Mat \<Rightarrow> KeyPoint list \<times> 8 word Mat"
  knnMatch :: "8 word Mat \<Rightarrow> 8 word Mat \<Rightarrow> nat \<Rightarrow> DMatch list list"
  findHomographyRANSAC :: "Point2f list \<Rightarrow> Point2f list \<Rightarrow> real \<Rightarrow> real Mat \<times> 8 word list"
  perspectiveTransform :: "real Mat \<Rightarrow> Point2f \<Rightarrow> Point2f"
  atan2 :: "float \<Rightarrow> float \<Rightarrow> float"
  GaussianBlur :: "8 word Mat \<Rightarrow> int \<Rightarrow> 8 word Mat"
  Canny :: "8 word Mat \<Rightarrow> int \<Rightarrow> int \<Rightarrow> 8 word Mat"
  dilate :: "8 word Mat \<Rightarrow> 8 word Mat"
  findContours :: "8 word Mat \<Rightarrow> Point list list"
  contourArea :: "Point list \<Rightarrow> real"
  arcLength :: "Point list \<Rightarrow> bool \<Rightarrow> real"
  approxPolyDP :: "Point list \<Rightarrow> float \<Rightarrow> bool \<Rightarrow> Point list"
  findHomography :: "Point2f list \<Rightarrow> Point2f list \<Rightarrow> real Mat"
  solvePnP :: "Point3f list \<Rightarrow> Point2f list \<Rightarrow> float list \<Rightarrow> real list \<Rightarrow> bool \<times> Vec3 \<times> Vec3"
  Mat_of_data :: "int \<Rightarrow> int \<Rightarrow> int \<Rightarrow> 8 word list \<Rightarrow> 8 word Mat"
  cvtColor_gray :: "8 word Mat \<Rightarrow> int \<Rightarrow> 8 word Mat"
  imdecode_gray :: "8 word list \<Rightarrow> 8 word Mat"

section \<open>Constants\<close>

definition MIN_MATCHES :: int where
  "MIN_MATCHES = 10"

definition RATIO_THRESH :: real where
  "RATIO_THRESH = 0.75"

definition RANSAC_THRESH :: real where
  "RANSAC_THRESH = 5.0"

section \<open>Shared pieces of the two homography pipelines\<close>

text \<open>\<open>HomographyResult result = {}\<close>: every field zero.\<close>

definition result0 :: HomographyResult where
  "result0 = \<lparr>center_x = Finite 0, center_y = Finite 0, rotation = Finite 0, scale = Finite 0,
     homography = [0, 0, 0, 0, 0, 0, 0, 0, 0],
     corners = [Finite 0, Finite 0, Finite 0, Finite 0, Finite 0, Finite 0, Finite 0, Finite 0],
     num_matches = 0, status = 0\<rparr>"

text \<open>The lambda \<open>cross_product\<close>, written out three times in the source.\<close>

definition cross_product :: "Point2f \<Rightarrow> Point2f \<Rightarrow> Point2f \<Rightarrow> float" where
  "cross_product o' a b =
     fsub (fmul (fsub (pt_x a) (pt_x o')) (fsub (pt_y b) (pt_y o')))
          (fmul (fsub (pt_y a) (pt_y o')) (fsub (pt_x b) (pt_x o')))"

text \<open>The loop \<open>for (char inlier : inliers_mask) if (inlier) num_inliers++\<close>.\<close>

fun count_inliers :: "8 word list \<Rightarrow> int" where
  "count_inliers [] = 0"
| "count_inliers (inlier # inliers_mask) = (if inlier \<noteq> 0 then 1 else 0) + count_inliers inliers_mask"

text \<open>
  The local variables of the quadrilateral validation, as functions of the transformed
  corners (lines 160-201 and 437-476).
\<close>

definition top_edge :: "Point2f list \<Rightarrow> float" where
  "top_edge scene_corners =
     (let dx = fsub (pt_x (scene_corners ! 1)) (pt_x (scene_corners ! 0));
          dy = fsub (pt_y (scene_corners ! 1)) (pt_y (scene_corners ! 0))
      in fsqrt (fadd (fmul dx dx) (fmul dy dy)))"

definition left_edge :: "Point2f list \<Rightarrow> float" where
  "left_edge scene_corners =
     (let left_dx = fsub (pt_x (scene_corners ! 3)) (pt_x (scene_corners ! 0));
          left_dy = fsub (pt_y (scene_corners ! 3)) (pt_y (scene_corners ! 0))
      in fsqrt (fadd (fmul left_dx left_dx) (fmul left_dy left_dy)))"

definition is_convex :: "Point2f list \<Rightarrow> bool" where
  "is_convex scene_corners =
     (let cp1 = cross_product (scene_corners ! 0) (scene_corners ! 1) (scene_corners ! 2);
          cp2 = cross_product (scene_corners ! 1) (scene_corners ! 2) (scene_corners ! 3);
          cp3 = cross_product (scene_corners ! 2) (scene_corners ! 3) (scene_corners ! 0);
          cp4 = cross_product (scene_corners ! 3) (scene_corners ! 0) (scene_corners ! 1)
      in (flt (Finite 0) cp1 \<and> flt (Finite 0) cp2 \<and> flt (Finite 0) cp3 \<and> flt (Finite 0) cp4) \<or>
         (flt cp1 (Finite 0) \<and> flt cp2 (Finite 0) \<and> flt cp3 (Finite 0) \<and> flt cp4 (Finite 0)))"

definition aspect_distortion :: "Point2f list \<Rightarrow> float \<Rightarrow> float \<Rightarrow> float" where
  "aspect_distortion scene_corners original_width original_height =
     (let aspect_ratio = fdiv (top_edge scene_corners) (left_edge scene_corners);
          original_aspect = fdiv original_width original_height
      in fdiv aspect_ratio original_aspect)"

definition scene_corners_of :: "cv \<Rightarrow> real Mat \<Rightarrow> int \<Rightarrow> int \<Rightarrow> Point2f list" where
  "scene_corners_of cv H width height =
     (let anchor_corners =
            [Point2f (Finite 0) (Finite 0), Point2f (float_of_int width) (Finite 0),
             Point2f (float_of_int width) (float_of_int height),
             Point2f (Finite 0) (float_of_int height)]
      in map (perspectiveTransform cv H) anchor_corners)"

text \<open>
  The code after the inlier policy, the same text in \<open>compute_homography_internal\<close>
  (lines 123-211) and in \<open>hg_find_homography_from_points\<close> (lines 400-486):
  copy the matrix, transform the anchor corners, fill the metrics, validate the quadrilateral.
\<close>

definition finish_result ::
  "cv \<Rightarrow> real Mat \<Rightarrow> int \<Rightarrow> int \<Rightarrow> int \<Rightarrow> HomographyResult \<Rightarrow> HomographyResult" where
  "finish_result cv H num_inliers width height result =
     (let result = result\<lparr>homography := map (\<lambda>k. elem H (k div 3) (k mod 3)) [0..<9]\<rparr>;
          scene_corners = scene_corners_of cv H width height;
          result = result\<lparr>corners := concat (map (\<lambda>c. [pt_x c, pt_y c]) scene_corners)\<rparr>;
          result = result\<lparr>center_x :=
                       fdiv (foldl (\<lambda>s c. fadd s (pt_x c)) (Finite 0) scene_corners) (Finite 4),
                     center_y :=
                       fdiv (foldl (\<lambda>s c. fadd s (pt_y c)) (Finite 0) scene_corners) (Finite 4)\<rparr>;
          dx = fsub (pt_x (scene_corners ! 1)) (pt_x (scene_corners ! 0));
          dy = fsub (pt_y (scene_corners ! 1)) (pt_y (scene_corners ! 0));
          result = result\<lparr>rotation := atan2 cv dy dx\<rparr>;
          original_width = float_of_int width;
          original_height = float_of_int height;
          result = result\<lparr>scale :=
                     fdiv (fadd (fdiv (top_edge scene_corners) original_width)
                                (fdiv (left_edge scene_corners) original_height)) (Finite 2)\<rparr>
      in if \<not> is_convex scene_corners then result\<lparr>status := 0\<rparr>
         else if flt (aspect_distortion scene_corners original_width original_height) (f32 0.3)
                 \<or> flt (Finite 3) (aspect_distortion scene_corners original_width original_height)
         then result\<lparr>status := 0\<rparr>
         else result\<lparr>num_matches := num_inliers, status := 1\<rparr>)"

section \<open>hg\_find\_homography\_from\_points\<close>

text \<open>
  A pointer argument is \<open>None\<close> when null, otherwise the array it points to. The loop
  of lines 366-370 reads the first \<open>num_points\<close> entries of all four arrays.
\<close>

definition read_points :: "float list \<Rightarrow> float list \<Rightarrow> int \<Rightarrow> error + Point2f list" where
  "read_points xs ys num_points =
     (if num_points \<le> int (length xs) \<and> num_points \<le> int (length ys)
      then Inr (map (\<lambda>i. Point2f (xs ! i) (ys ! i)) [0..<nat num_points])
      else Inl OutOfBounds)"

definition hg_find_homography_from_points ::
  "cv \<Rightarrow> float list option \<Rightarrow> float list option \<Rightarrow> float list option \<Rightarrow> float list option
     \<Rightarrow> int \<Rightarrow> int \<Rightarrow> int \<Rightarrow> cv_call list \<times> (error + HomographyResult)" where
  "hg_find_homography_from_points cv pts0_x pts0_y pts1_x pts1_y num_points anchor_width anchor_height =
     (let result = result0
      in if pts0_x = None \<or> pts0_y = None \<or> pts1_x = None \<or> pts1_y = None
         then ([], Inr (result\<lparr>status := -1\<rparr>))
         else if num_points < 4
         then ([], Inr (result\<lparr>status := 0, num_matches := num_points\<rparr>))
         else if anchor_width \<le> 0 \<or> anchor_height \<le> 0
         then ([], Inr (result\<lparr>status := -1\<rparr>))
         else
           case (read_points (the pts0_x) (the pts0_y) num_points,
                 read_points (the pts1_x) (the pts1_y) num_points) of
             (Inr pts_anchor, Inr pts_scene) \<Rightarrow>
               (let result = result\<lparr>num_matches := num_points\<rparr>;
                    (H, inliers_mask) = findHomographyRANSAC cv pts_anchor pts_scene RANSAC_THRESH
                in if empty_Mat H \<or> rows H \<noteq> 3 \<or> cols H \<noteq> 3
                   then ([FindHomography], Inr (result\<lparr>status := 0\<rparr>))
                   else
                     let num_inliers = count_inliers inliers_mask
                     in if num_inliers < MIN_MATCHES
                           \<or> real_of_int num_inliers < real_of_int num_points * 0.3
                        then ([FindHomography], Inr (result\<lparr>status := 0\<rparr>))
                        else ([FindHomography, PerspectiveTransform],
                              Inr (finish_result cv H num_inliers anchor_width anchor_height result)))
           | _ \<Rightarrow> ([], Inl OutOfBounds))"

section \<open>compute\_homography\_internal\<close>

text \<open>
  Lowe's ratio test, lines 70-78: a pair of neighbours is kept (its first element)
  when it has exactly two entries and the first is closer than
  \<open>RATIO_THRESH\<close> times the second.
\<close>

fun ratio_test :: "DMatch list list \<Rightarrow> DMatch list" where
  "ratio_test [] = []"
| "ratio_test (m # knn_matches) =
     (if length m = 2 \<and> distance (m ! 0) < RATIO_THRESH * distance (m ! 1)
      then m ! 0 # ratio_test knn_matches
      else ratio_test knn_matches)"

text \<open>\<open>kp[idx].pt\<close> on a \<open>std::vector\<close>: no bounds check in the source.\<close>

definition keypoint_at :: "KeyPoint list \<Rightarrow> int \<Rightarrow> error + Point2f" where
  "keypoint_at kp idx =
     (if 0 \<le> idx \<and> idx < int (length kp) then Inr (pt (kp ! nat idx)) else Inl OutOfBounds)"

text \<open>The loop of lines 89-95.\<close>

fun extract_points ::
  "KeyPoint list \<Rightarrow> KeyPoint list \<Rightarrow> DMatch list \<Rightarrow> error + (Point2f list \<times> Point2f list)" where
  "extract_points kp_anchor kp_scene [] = Inr ([], [])"
| "extract_points kp_anchor kp_scene (m # good_matches) =
     (case (keypoint_at kp_anchor (queryIdx m), keypoint_at kp_scene (trainIdx m)) of
        (Inr a, Inr s) \<Rightarrow>
          (case extract_points kp_anchor kp_scene good_matches of
             Inr (pts_anchor, pts_scene) \<Rightarrow> Inr (a # pts_anchor, s # pts_scene)
           | Inl e \<Rightarrow> Inl e)
      | _ \<Rightarrow> Inl OutOfBounds)"

definition compute_homography_internal ::
  "cv \<Rightarrow> 8 word Mat \<Rightarrow> 8 word Mat \<Rightarrow> cv_call list \<times> (error + HomographyResult)" where
  "compute_homography_internal cv anchor_gray scene_gray =
     (let result = result0;
          (kp_anchor, desc_anchor) = detectAndCompute cv anchor_gray;
          (kp_scene, desc_scene) = detectAndCompute cv scene_gray;
          calls = [DetectAndCompute, DetectAndCompute]
      in if length kp_anchor < 4 \<or> length kp_scene < 4
         then (calls, Inr (result\<lparr>status := 0\<rparr>))
         else if empty_Mat desc_anchor \<or> empty_Mat desc_scene
         then (calls, Inr (result\<lparr>status := 0\<rparr>))
         else
           let knn_matches = knnMatch cv desc_anchor desc_scene 2;
               calls = calls @ [KnnMatch];
               good_matches = ratio_test knn_matches;
               result = result\<lparr>num_matches := int (length good_matches)\<rparr>
           in if int (length good_matches) < MIN_MATCHES
              then (calls, Inr (result\<lparr>status := 0\<rparr>))
              else
                case extract_points kp_anchor kp_scene good_matches of
                  Inl e \<Rightarrow> (calls, Inl e)
                | Inr (pts_anchor, pts_scene) \<Rightarrow>
                    (let (H, inliers_mask) =
                           findHomographyRANSAC cv pts_anchor pts_scene RANSAC_THRESH;
                         calls = calls @ [FindHomography]
                     in if empty_Mat H \<or> rows H \<noteq> 3 \<or> cols H \<noteq> 3
                        then (calls, Inr (result\<lparr>status := 0\<rparr>))
                        else
                          let num_inliers = count_inliers inliers_mask
                          in if num_inliers < MIN_MATCHES
                                \<or> real_of_int num_inliers < real (length good_matches) * 0.3
                             then (calls, Inr (result\<lparr>status := 0\<rparr>))
                             else (calls @ [PerspectiveTransform],
                                   Inr (finish_result cv H num_inliers
                                          (cols anchor_gray) (rows anchor_gray) result))))"

section \<open>Paper detection\<close>

text \<open>
  \<open>std::min_element\<close> and \<open>std::max_element\<close> on a vector, as the index of the
  element found: the first smallest, respectively the first largest, by \<open><\<close>.
\<close>

definition min_element :: "float list \<Rightarrow> nat" where
  "min_element xs =
     foldl (\<lambda>smallest i. if flt (xs ! i) (xs ! smallest) then i else smallest) 0 [1..<length xs]"

definition max_element :: "float list \<Rightarrow> nat" where
  "max_element xs =
     foldl (\<lambda>largest i. if flt (xs ! largest) (xs ! i) then i else largest) 0 [1..<length xs]"

definition order_points_clockwise :: "Point2f list \<Rightarrow> Point2f list" where
  "order_points_clockwise pts =
     (if length pts \<noteq> 4 then pts
      else
        let sums' = map (\<lambda>p. fadd (pt_x p) (pt_y p)) pts;
            diffs' = map (\<lambda>p. fsub (pt_y p) (pt_x p)) pts
        in [pts ! min_element sums', pts ! min_element diffs',
            pts ! max_element sums', pts ! max_element diffs'])"

definition is_convex_quadrilateral :: "Point2f list \<Rightarrow> bool" where
  "is_convex_quadrilateral pts =
     (if length pts \<noteq> 4 then False
      else
        let cp1 = cross_product (pts ! 0) (pts ! 1) (pts ! 2);
            cp2 = cross_product (pts ! 1) (pts ! 2) (pts ! 3);
            cp3 = cross_product (pts ! 2) (pts ! 3) (pts ! 0);
            cp4 = cross_product (pts ! 3) (pts ! 0) (pts ! 1)
        in (flt (Finite 0) cp1 \<and> flt (Finite 0) cp2 \<and> flt (Finite 0) cp3 \<and> flt (Finite 0) cp4) \<or>
           (flt cp1 (Finite 0) \<and> flt cp2 (Finite 0) \<and> flt cp3 (Finite 0) \<and> flt cp4 (Finite 0)))"

definition edge_length :: "Point2f \<Rightarrow> Point2f \<Rightarrow> float" where
  "edge_length p1 p2 =
     (let dx = fsub (pt_x p2) (pt_x p1);
          dy = fsub (pt_y p2) (pt_y p1)
      in fsqrt (fadd (fmul dx dx) (fmul dy dy)))"

text \<open>\<open>PaperDetectionResult result = {}\<close>.\<close>

definition paper_result0 :: PaperDetectionResult where
  "paper_result0 =
     \<lparr>pd_corners = [Finite 0, Finite 0, Finite 0, Finite 0, Finite 0, Finite 0, Finite 0, Finite 0],
      pd_center_x = Finite 0, pd_center_y = Finite 0,
      pd_homography = [0, 0, 0, 0, 0, 0, 0, 0, 0], pd_rvec = [0, 0, 0], pd_tvec = [0, 0, 0],
      pd_area = Finite 0, pd_perimeter = Finite 0, pd_aspect_ratio = Finite 0, pd_status = 0\<rparr>"

definition hg_default_paper_config :: PaperDetectionConfig where
  "hg_default_paper_config =
     \<lparr>canny_threshold1 = 50, canny_threshold2 = 150, blur_kernel_size = 5,
      min_area_ratio = f32 0.05, max_area_ratio = f32 0.95,
      expected_aspect_ratio = fdiv (Finite 210) (Finite 297), aspect_ratio_tolerance = f32 0.3,
      paper_width_mm = Finite 210, paper_height_mm = Finite 297,
      focal_length = Finite 0, cx = Finite 0, cy = Finite 0\<rparr>"

text \<open>
  The conversion of line 656,
  \<open>cv::Point2f(static_cast<float>(p.x), static_cast<float>(p.y))\<close>.
\<close>

definition to_Point2f :: "Point \<Rightarrow> Point2f" where
  "to_Point2f p = Point2f (float_of_int (ipt_x p)) (float_of_int (ipt_y p))"

text \<open>
  The product \<open>0.035 * peri\<close> of line 646, formed in \<open>double\<close> from the \<open>float\<close>
  perimeter.
\<close>

fun double_times :: "real \<Rightarrow> float \<Rightarrow> float" where
  "double_times c (Finite a) = Finite (c * a)"
| "double_times c PInf = (if c = 0 then NaN else if c > 0 then PInf else NInf)"
| "double_times c NInf = (if c = 0 then NaN else if c > 0 then NInf else PInf)"
| "double_times c NaN = NaN"

text \<open>
  The body of the loop over the contours up to the score (lines 636-700): \<open>None\<close>
  where the source leaves the iteration with \<open>continue\<close>, otherwise the ordered
  quadrilateral, its score and its area. \<open>std::min\<close> of an initializer list returns the
  first smallest element.
\<close>

definition candidate ::
  "cv \<Rightarrow> PaperDetectionConfig \<Rightarrow> float \<Rightarrow> float \<Rightarrow> float \<Rightarrow> Point list
     \<Rightarrow> (Point2f list \<times> float \<times> float) option" where
  "candidate cv cfg min_area max_area min_edge_length contour =
     (let area = float_of_double (contourArea cv contour)
      in if flt area min_area \<or> flt max_area area then None
         else
           let peri = float_of_double (arcLength cv contour True);
               approx = approxPolyDP cv contour (double_times 0.035 peri) True
           in if length approx \<noteq> 4 then None
              else
                let quad = map to_Point2f approx;
                    quad = order_points_clockwise quad
                in if \<not> is_convex_quadrilateral quad then None
                   else
                     let edge0 = edge_length (quad ! 0) (quad ! 1);
                         edge1 = edge_length (quad ! 1) (quad ! 2);
                         edge2 = edge_length (quad ! 2) (quad ! 3);
                         edge3 = edge_length (quad ! 3) (quad ! 0);
                         min_edge = fmin (fmin (fmin edge0 edge1) edge2) edge3
                     in if flt min_edge min_edge_length then None
                        else
                          let width = fdiv (fadd edge0 edge2) (Finite 2);
                              height = fdiv (fadd edge1 edge3) (Finite 2);
                              aspect_ratio = fdiv (fmin width height) (fmax width height)
                          in if flt (Finite 0) (expected_aspect_ratio cfg)
                                \<and> flt (aspect_ratio_tolerance cfg)
                                    (fdiv (fabs (fsub aspect_ratio (expected_aspect_ratio cfg)))
                                          (expected_aspect_ratio cfg))
                             then None
                             else
                               let aspect_score =
                                     (if flt (Finite 0) (expected_aspect_ratio cfg)
                                      then fsub (Finite 1)
                                             (fdiv (fabs (fsub aspect_ratio (expected_aspect_ratio cfg)))
                                                   (expected_aspect_ratio cfg))
                                      else Finite 1);
                                   score = fmul area aspect_score
                               in Some (quad, score, area))"

text \<open>
  One iteration of the loop on the state \<open>(best_quad, best_score, best_area)\<close>
  (lines 702-707), and the whole loop from its initial state (lines 627-629).
\<close>

definition consider_contour ::
  "cv \<Rightarrow> PaperDetectionConfig \<Rightarrow> float \<Rightarrow> float \<Rightarrow> float
     \<Rightarrow> Point2f list \<times> float \<times> float \<Rightarrow> Point list \<Rightarrow> Point2f list \<times> float \<times> float" where
  "consider_contour cv cfg min_area max_area min_edge_length best contour =
     (case best of (best_quad, best_score, best_area) \<Rightarrow>
        (case candidate cv cfg min_area max_area min_edge_length contour of
           None \<Rightarrow> best
         | Some (quad, score, area) \<Rightarrow>
             if flt best_score score then (quad, score, area) else best))"

definition find_best_quad ::
  "cv \<Rightarrow> PaperDetectionConfig \<Rightarrow> float \<Rightarrow> float \<Rightarrow> float \<Rightarrow> Point list list
     \<Rightarrow> Point2f list \<times> float \<times> float" where
  "find_best_quad cv cfg min_area max_area min_edge_length contours =
     foldl (consider_contour cv cfg min_area max_area min_edge_length)
       ([], Finite (- 1), Finite 0) contours"

text \<open>Lines 593-618: the configuration in force, the thresholds and the contours.\<close>

definition config_in_force :: "PaperDetectionConfig option \<Rightarrow> PaperDetectionConfig" where
  "config_in_force config =
     (case config of
        Some c \<Rightarrow> c
      | None \<Rightarrow>
          \<lparr>canny_threshold1 = 50, canny_threshold2 = 150, blur_kernel_size = 5,
           min_area_ratio = f32 0.05, max_area_ratio = f32 0.95,
           expected_aspect_ratio = fdiv (Finite 210) (Finite 297),
           aspect_ratio_tolerance = f32 0.3,
           paper_width_mm = Finite 210, paper_height_mm = Finite 297,
           focal_length = Finite 0, cx = Finite 0, cy = Finite 0\<rparr>)"

definition contours_of :: "cv \<Rightarrow> PaperDetectionConfig \<Rightarrow> 8 word Mat \<Rightarrow> Point list list" where
  "contours_of cv cfg gray =
     (let blurred = (if blur_kernel_size cfg > 0 \<and> blur_kernel_size cfg mod 2 = 1
                     then GaussianBlur cv gray (blur_kernel_size cfg)
                     else gray);
          edges = Canny cv blurred (canny_threshold1 cfg) (canny_threshold2 cfg);
          edges = dilate cv edges
      in findContours cv edges)"

definition best_quad_of ::
  "cv \<Rightarrow> PaperDetectionConfig \<Rightarrow> 8 word Mat \<Rightarrow> Point2f list \<times> float \<times> float" where
  "best_quad_of cv cfg gray =
     (let image_area = float_of_int (cols gray * rows gray);
          min_area = fmul image_area (min_area_ratio cfg);
          max_area = fmul image_area (max_area_ratio cfg);
          min_edge_length = fmul (float_of_int (min (cols gray) (rows gray))) (f32 0.05)
      in find_best_quad cv cfg min_area max_area min_edge_length (contours_of cv cfg gray))"

text \<open>
  Lines 743-762 and 781-793: the averaged width and height of the selected quadrilateral,
  the paper size (swapped when the quadrilateral is wider than tall), the canonical
  rectangle, the camera matrix and the object points.
\<close>

definition quad_width :: "Point2f list \<Rightarrow> float" where
  "quad_width best_quad =
     fdiv (fadd (edge_length (best_quad ! 0) (best_quad ! 1))
                (edge_length (best_quad ! 3) (best_quad ! 2))) (Finite 2)"

definition quad_height :: "Point2f list \<Rightarrow> float" where
  "quad_height best_quad =
     fdiv (fadd (edge_length (best_quad ! 0) (best_quad ! 3))
                (edge_length (best_quad ! 1) (best_quad ! 2))) (Finite 2)"

definition paper_size :: "PaperDetectionConfig \<Rightarrow> Point2f list \<Rightarrow> float \<times> float" where
  "paper_size cfg best_quad =
     (let paper_w = (if flt (Finite 0) (paper_width_mm cfg) then paper_width_mm cfg else Finite 210);
          paper_h = (if flt (Finite 0) (paper_height_mm cfg) then paper_height_mm cfg else Finite 297)
      in if flt (quad_height best_quad) (quad_width best_quad) then (paper_h, paper_w)
         else (paper_w, paper_h))"

definition canonical_corners :: "PaperDetectionConfig \<Rightarrow> Point2f list \<Rightarrow> Point2f list" where
  "canonical_corners cfg best_quad =
     (case paper_size cfg best_quad of (paper_w, paper_h) \<Rightarrow>
        [Point2f (Finite 0) (Finite 0), Point2f paper_w (Finite 0),
         Point2f paper_w paper_h, Point2f (Finite 0) paper_h])"

definition camera_matrix :: "PaperDetectionConfig \<Rightarrow> 8 word Mat \<Rightarrow> float list" where
  "camera_matrix cfg gray =
     [focal_length cfg, Finite 0,
      (if flt (Finite 0) (cx cfg) then cx cfg else Finite (real_of_int (cols gray) / 2.0)),
      Finite 0, focal_length cfg,
      (if flt (Finite 0) (cy cfg) then cy cfg else Finite (real_of_int (rows gray) / 2.0)),
      Finite 0, Finite 0, Finite 1]"

definition object_points :: "PaperDetectionConfig \<Rightarrow> Point2f list \<Rightarrow> Point3f list" where
  "object_points cfg best_quad =
     (case paper_size cfg best_quad of (paper_w, paper_h) \<Rightarrow>
        [Point3f (Finite 0) (Finite 0) (Finite 0), Point3f paper_w (Finite 0) (Finite 0),
         Point3f paper_w paper_h (Finite 0), Point3f (Finite 0) paper_h (Finite 0)])"

text \<open>Lines 716-810: the result for a selected quadrilateral.\<close>

definition paper_result ::
  "cv \<Rightarrow> PaperDetectionConfig \<Rightarrow> 8 word Mat \<Rightarrow> Point2f list \<Rightarrow> float
     \<Rightarrow> PaperDetectionResult \<Rightarrow> PaperDetectionResult" where
  "paper_result cv cfg gray best_quad best_area result =
     (let result = result\<lparr>pd_corners :=
                     concat (map (\<lambda>i. [pt_x (best_quad ! i), pt_y (best_quad ! i)]) [0..<4])\<rparr>;
          result = result\<lparr>pd_center_x :=
                            fdiv (foldl (\<lambda>s p. fadd s (pt_x p)) (Finite 0) best_quad) (Finite 4),
                          pd_center_y :=
                            fdiv (foldl (\<lambda>s p. fadd s (pt_y p)) (Finite 0) best_quad) (Finite 4)\<rparr>;
          result = result\<lparr>pd_area := best_area\<rparr>;
          result = result\<lparr>pd_perimeter :=
                     foldl (\<lambda>s i. fadd s (edge_length (best_quad ! i) (best_quad ! ((i + 1) mod 4))))
                       (Finite 0) [0..<4]\<rparr>;
          width = quad_width best_quad;
          height = quad_height best_quad;
          result = result\<lparr>pd_aspect_ratio := fdiv (fmin width height) (fmax width height)\<rparr>;
          H = findHomography cv (canonical_corners cfg best_quad) best_quad;
          result = (if \<not> empty_Mat H \<and> rows H = 3 \<and> cols H = 3
                    then result\<lparr>pd_homography := map (\<lambda>k. elem H (k div 3) (k mod 3)) [0..<9]\<rparr>
                    else result);
          result =
            (if flt (Finite 0) (focal_length cfg)
             then
               let dist_coeffs = [0, 0, 0, 0];
                   (solved, rvec, tvec) =
                     solvePnP cv (object_points cfg best_quad) best_quad
                       (camera_matrix cfg gray) dist_coeffs
               in if solved
                  then (case (rvec, tvec) of ((r0, r1, r2), (t0, t1, t2)) \<Rightarrow>
                          result\<lparr>pd_rvec := [r0, r1, r2], pd_tvec := [t0, t1, t2]\<rparr>)
                  else result
             else result)
      in result\<lparr>pd_status := 1\<rparr>)"

definition detect_paper_internal ::
  "cv \<Rightarrow> 8 word Mat \<Rightarrow> PaperDetectionConfig option \<Rightarrow> PaperDetectionResult" where
  "detect_paper_internal cv gray config =
     (let result = paper_result0;
          cfg = config_in_force config
      in if contours_of cv cfg gray = [] then result\<lparr>pd_status := 0\<rparr>
         else
           case best_quad_of cv cfg gray of (best_quad, best_score, best_area) \<Rightarrow>
             if best_quad = [] then result\<lparr>pd_status := 0\<rparr>
             else paper_result cv cfg gray best_quad best_area result)"

text \<open>
  The two entry points; a null pointer is \<open>None\<close>, and a buffer shorter than the
  size the caller states is read past its end.
\<close>

definition hg_detect_paper ::
  "cv \<Rightarrow> 8 word list option \<Rightarrow> int \<Rightarrow> int \<Rightarrow> int \<Rightarrow> PaperDetectionConfig option
     \<Rightarrow> error + PaperDetectionResult" where
  "hg_detect_paper cv image_data image_width image_height image_channels config =
     (let result = paper_result0
      in if image_data = None then Inr (result\<lparr>pd_status := -1\<rparr>)
         else if image_width \<le> 0 \<or> image_height \<le> 0 then Inr (result\<lparr>pd_status := -1\<rparr>)
         else if image_channels \<noteq> 1 \<and> image_channels \<noteq> 3 \<and> image_channels \<noteq> 4
         then Inr (result\<lparr>pd_status := -1\<rparr>)
         else if int (length (the image_data)) < image_height * image_width * image_channels
         then Inl OutOfBounds
         else
           let image = Mat_of_data cv image_height image_width image_channels (the image_data);
               gray = (if image_channels = 1 then image
                       else cvtColor_gray cv image image_channels)
           in Inr (detect_paper_internal cv gray config))"

definition hg_detect_paper_encoded ::
  "cv \<Rightarrow> 8 word list option \<Rightarrow> nat \<Rightarrow> PaperDetectionConfig option
     \<Rightarrow> error + PaperDetectionResult" where
  "hg_detect_paper_encoded cv image_bytes image_size config =
     (let result = paper_result0
      in if image_bytes = None \<or> image_size = 0 then Inr (result\<lparr>pd_status := -1\<rparr>)
         else if length (the image_bytes) < image_size then Inl OutOfBounds
         else
           let gray = imdecode_gray cv (take image_size (the image_bytes))
           in if empty_Mat gray then Inr (result\<lparr>pd_status := -1\<rparr>)
              else Inr (detect_paper_internal cv gray config))"

section \<open>Vocabulary of the specification\<close>








text \<open>A pixel of an image of at most \<open>bound\<close> columns and rows.\<close>

definition pixel_within :: "int \<Rightarrow> Point \<Rightarrow> bool" where
  "pixel_within bound p = (0 \<le> ipt_x p \<and> ipt_x p \<le> bound \<and> 0 \<le> ipt_y p \<and> ipt_y p \<le> bound)"

text \<open>The paper candidates of an image: the contours that pass every filter of the loop.\<close>

definition candidates_of ::
  "cv \<Rightarrow> PaperDetectionConfig \<Rightarrow> 8 word Mat \<Rightarrow> (Point2f list \<times> float \<times> float) list" where
  "candidates_of cv cfg gray =
     (let image_area = float_of_int (cols gray * rows gray);
          min_area = fmul image_area (min_area_ratio cfg);
          max_area = fmul image_area (max_area_ratio cfg);
          min_edge_length = fmul (float_of_int (min (cols gray) (rows gray))) (f32 0.05)
      in List.map_filter (candidate cv cfg min_area max_area min_edge_length)
           (contours_of cv cfg gray))"

section \<open>Examples of library behaviour\<close>

text \<open>
  \<open>cv::perspectiveTransform\<close> on one point, as OpenCV documents it: the point
  is mapped through the matrix in homogeneous coordinates, in \<open>double\<close>, and the result
  converted to \<open>float\<close>.
\<close>

fun perspective_point :: "real Mat \<Rightarrow> Point2f \<Rightarrow> Point2f" where
  "perspective_point H (Point2f (Finite x) (Finite y)) =
     (let w = elem H 2 0 * x + elem H 2 1 * y + elem H 2 2
      in if w = 0 then Point2f (Finite 0) (Finite 0)
         else Point2f (float_of_double ((elem H 0 0 * x + elem H 0 1 * y + elem H 0 2) / w))
                      (float_of_double ((elem H 1 0 * x + elem H 1 1 * y + elem H 1 2) / w)))"
| "perspective_point H (Point2f _ _) = Point2f NaN NaN"

text \<open>\<open>std::atan2\<close> on finite arguments, correctly rounded.\<close>

definition atan2_exact :: "real \<Rightarrow> real \<Rightarrow> real" where
  "atan2_exact y' x' =
     (if x' > 0 then arctan (y' / x')
      else if x' < 0 \<and> y' \<ge> 0 then arctan (y' / x') + pi
      else if x' < 0 then arctan (y' / x') - pi
      else if y' > 0 then pi / 2
      else if y' < 0 then - pi / 2
      else 0)"

fun atan2_example :: "float \<Rightarrow> float \<Rightarrow> float" where
  "atan2_example (Finite y) (Finite x) = float_of_double (atan2_exact y x)"
| "atan2_example _ _ = NaN"

text \<open>A 3x3 matrix from its nine entries, row-major.\<close>

definition mat3 :: "real list \<Rightarrow> real Mat" where
  "mat3 xs = \<lparr>rows = 3, cols = 3, elem = (\<lambda>i j. xs ! (i * 3 + j))\<rparr>"

definition no_matrix :: "real Mat" where
  "no_matrix = \<lparr>rows = 0, cols = 0, elem = (\<lambda>_ _. 0)\<rparr>"

definition no_image :: "8 word Mat" where
  "no_image = \<lparr>rows = 0, cols = 0, elem = (\<lambda>_ _. 0)\<rparr>"

text \<open>
  A library that finds \<open>n\<close> keypoints on the diagonal of every image, matches the
  \<open>i\<close>-th with the \<open>i\<close>-th at distances 10 and 50, answers every estimation with the
  given matrix and mask, and sees the given contour, of the given area, in every image.
\<close>

definition cv_example :: "nat \<Rightarrow> real Mat \<Rightarrow> 8 word list \<Rightarrow> Point list \<Rightarrow> real \<Rightarrow> cv" where
  "cv_example n H inliers_mask contour a =
     \<lparr>detectAndCompute =
        (\<lambda>_. (map (\<lambda>i. KeyPoint (Point2f (Finite (real i)) (Finite (real i)))) [0..<n],
              \<lparr>rows = int n, cols = 32, elem = (\<lambda>_ _. 0)\<rparr>)),
      knnMatch =
        (\<lambda>_ _ _. map (\<lambda>i. [\<lparr>queryIdx = int i, trainIdx = int i, distance = 10\<rparr>,
                            \<lparr>queryIdx = int i, trainIdx = 0, distance = 50\<rparr>]) [0..<n]),
      findHomographyRANSAC = (\<lambda>_ _ _. (H, inliers_mask)),
      perspectiveTransform = perspective_point,
      atan2 = atan2_example,
      GaussianBlur = (\<lambda>img _. img),
      Canny = (\<lambda>img _ _. img),
      dilate = (\<lambda>img. img),
      findContours = (\<lambda>_. [contour]),
      contourArea = (\<lambda>_. a),
      arcLength = (\<lambda>_ _. 0),
      approxPolyDP = (\<lambda>c _ _. c),
      findHomography = (\<lambda>_ _. H),
      solvePnP = (\<lambda>_ _ _ _. (False, (0, 0, 0), (0, 0, 0))),
      Mat_of_data = (\<lambda>h w _ _. \<lparr>rows = h, cols = w, elem = (\<lambda>_ _. 0)\<rparr>),
      cvtColor_gray = (\<lambda>img _. img),
      imdecode_gray = (\<lambda>_. no_image)\<rparr>"

definition gray_image :: "int \<Rightarrow> int \<Rightarrow> 8 word Mat" where
  "gray_image w h = \<lparr>rows = h, cols = w, elem = (\<lambda>_ _. 0)\<rparr>"

definition identity3 :: "real Mat" where
  "identity3 = mat3 [1, 0, 0, 0, 1, 0, 0, 0, 1]"

definition a4_contour :: "Point list" where
  "a4_contour = [Point 100 50, Point 310 50, Point 310 347, Point 100 347]"

definition square_contour :: "Point list" where
  "square_contour = [Point 100 100, Point 200 100, Point 200 200, Point 100 200]"

definition wide_tolerance_config :: PaperDetectionConfig where
  "wide_tolerance_config =
     hg_default_paper_config\<lparr>expected_aspect_ratio := f32 0.25, aspect_ratio_tolerance := Finite 3\<rparr>"



definition far_quad :: "Point list" where
  "far_quad = [Point 16777216 0, Point 16777218 1, Point 16777218 101, Point 16777216 100]"

definition ones10 :: "8 word list" where
  "ones10 = [1, 1, 1, 1, 1, 1, 1, 1, 1, 1]"

definition nine_of_ten :: "8 word list" where
  "nine_of_ten = [1, 1, 1, 0, 1, 1, 1, 1, 1, 1]"

definition ramp10 :: "float list" where
  "ramp10 = [Finite 0, Finite 1, Finite 2, Finite 3, Finite 4, Finite 5, Finite 6, Finite 7,
     Finite 8, Finite 9]"

section \<open>Properties of binary32 arithmetic\<close>

lemma round_even_int [simp]: "round_even (of_int k) = k"
  by (simp add: round_even_def)

lemma round_even_0 [simp]: "round_even 0 = 0"
  using round_even_int [of 0] by simp

lemma round_even_minus: "round_even (- x) = - round_even x"
proof (cases "x = of_int \<lfloor>x\<rfloor>")
  case True
  then obtain k where "x = of_int k"
    by metis
  then show ?thesis
    by (simp flip: of_int_minus)
next
  case False
  then have r: "of_int \<lfloor>x\<rfloor> < x" "x < of_int \<lfloor>x\<rfloor> + 1"
    by linarith+
  have c: "real_of_int (- \<lfloor>x\<rfloor> - 1) = - real_of_int \<lfloor>x\<rfloor> - 1"
    by simp
  have fl: "\<lfloor>- x\<rfloor> = - \<lfloor>x\<rfloor> - 1"
  proof (rule floor_unique)
    show "of_int (- \<lfloor>x\<rfloor> - 1) \<le> - x"
      unfolding c using r by linarith
    show "- x < of_int (- \<lfloor>x\<rfloor> - 1) + 1"
      unfolding c using r by linarith
  qed
  have ev: "even (- \<lfloor>x\<rfloor> - 1) \<longleftrightarrow> odd \<lfloor>x\<rfloor>"
    by simp
  show ?thesis
    using r unfolding round_even_def Let_def fl ev
    by (simp add: algebra_simps)
qed

lemma powr_powi: "(2::real) powr (real_of_int k) = 2 powi k"
  by (simp add: powr_real_of_int')

lemma exponent_bounds:
  assumes "x \<noteq> 0"
  shows "2 powi \<lfloor>log 2 \<bar>x\<bar>\<rfloor> \<le> \<bar>x\<bar>" "\<bar>x\<bar> < 2 powi (\<lfloor>log 2 \<bar>x\<bar>\<rfloor> + 1)"
proof -
  have "0 < \<bar>x\<bar>"
    using assms by simp
  then have "2 powr (real_of_int \<lfloor>log 2 \<bar>x\<bar>\<rfloor>) \<le> \<bar>x\<bar>
      \<and> \<bar>x\<bar> < 2 powr (real_of_int (\<lfloor>log 2 \<bar>x\<bar>\<rfloor> + 1))"
    using floor_log_eq_powr_iff [of "\<bar>x\<bar>" 2 "\<lfloor>log 2 \<bar>x\<bar>\<rfloor>"] by simp
  then show "2 powi \<lfloor>log 2 \<bar>x\<bar>\<rfloor> \<le> \<bar>x\<bar>" "\<bar>x\<bar> < 2 powi (\<lfloor>log 2 \<bar>x\<bar>\<rfloor> + 1)"
    unfolding powr_powi by simp_all
qed

lemma exponent_unique:
  assumes "2 powi k \<le> \<bar>x\<bar>" "\<bar>x\<bar> < 2 powi (k + 1)"
  shows "\<lfloor>log 2 \<bar>x\<bar>\<rfloor> = k"
proof -
  have "0 < (2::real) powi k"
    by simp
  with assms have pos: "0 < \<bar>x\<bar>"
    by linarith
  have "2 powr (real_of_int k) \<le> \<bar>x\<bar> \<and> \<bar>x\<bar> < 2 powr (real_of_int (k + 1))"
    using assms unfolding powr_powi by simp
  then show ?thesis
    using floor_log_eq_powr_iff [OF pos, of 2 k] by simp
qed

lemma round_even_bounds: "\<lfloor>x\<rfloor> \<le> round_even x" "round_even x \<le> \<lfloor>x\<rfloor> + 1"
  by (simp_all add: round_even_def Let_def)

lemma round32_normal:
  assumes "2 powi (e + 23) \<le> \<bar>x\<bar>" "\<bar>x\<bar> < 2 powi (e + 24)" "- 149 \<le> e"
  shows "round32 x =
     (let y = of_int (round_even (x / 2 powi e)) * 2 powi e
      in if \<bar>y\<bar> \<ge> 2 ^ 128 then (if x > 0 then PInf else NInf) else Finite y)"
proof -
  have "\<lfloor>log 2 \<bar>x\<bar>\<rfloor> = e + 23"
    using assms(1,2) by (intro exponent_unique) (simp_all add: add.commute add.left_commute)
  moreover have "x \<noteq> 0"
  proof
    assume "x = 0"
    moreover have "0 < (2::real) powi (e + 23)"
      by (rule zero_less_power_int) simp
    ultimately show False
      using assms(1) by linarith
  qed
  ultimately show ?thesis
    using assms(3) by (simp add: round32_def Let_def max_def)
qed

lemma round32_subnormal:
  assumes "\<bar>x\<bar> < 2 powi (- 126)"
  shows "round32 x = Finite (of_int (round_even (x / 2 powi (- 149))) * 2 powi (- 149))"
proof (cases "x = 0")
  case True
  then show ?thesis
    by (simp add: round32_def)
next
  case False
  have "\<lfloor>log 2 \<bar>x\<bar>\<rfloor> < - 126"
  proof (rule ccontr)
    assume "\<not> \<lfloor>log 2 \<bar>x\<bar>\<rfloor> < - 126"
    then have "(2::real) powi (- 126) \<le> 2 powi \<lfloor>log 2 \<bar>x\<bar>\<rfloor>"
      by (intro power_int_increasing) simp_all
    with exponent_bounds(1) [OF False] assms show False
      by linarith
  qed
  then have "\<lfloor>log 2 \<bar>x\<bar>\<rfloor> - 23 \<le> - 149"
    by linarith
  then have e: "max (\<lfloor>log 2 \<bar>x\<bar>\<rfloor> - 23) (- 149) = - 149"
    by (rule max_absorb2)
  let ?z = "x / 2 powi (- 149)"
  have "\<bar>?z\<bar> < 2 powi (- 126) / 2 powi (- 149)"
    using assms by (simp add: divide_strict_right_mono)
  also have "\<dots> = 2 ^ 23"
    by (simp add: power_int_minus field_simps)
  finally have z: "\<bar>?z\<bar> < 2 ^ 23" .
  have "\<bar>real_of_int (round_even ?z)\<bar> \<le> \<bar>?z\<bar> + 1"
    using round_even_bounds [of ?z] by linarith
  with z have "\<bar>real_of_int (round_even ?z)\<bar> < 2 ^ 24"
    by simp
  then have "\<bar>real_of_int (round_even ?z) * 2 powi (- 149)\<bar> < 2 ^ 24 * 1"
    unfolding abs_mult by (intro mult_strict_mono') (simp_all add: power_int_minus field_simps)
  then have "\<not> \<bar>real_of_int (round_even ?z) * 2 powi (- 149)\<bar> \<ge> 2 ^ 128"
    by simp
  then show ?thesis
    using False by (simp add: round32_def Let_def e del: max.absorb_iff2 max.absorb4)
qed

lemma round32_minus: "round32 (- x) = fneg (round32 x)"
  by (simp add: round32_def Let_def round_even_minus)

text \<open>A number with a significand below \<open>2 ^ 24\<close> and an exponent in range is kept.\<close>

lemma round32_exact:
  assumes k: "\<bar>k\<bar> < 2 ^ 24" and j: "- 149 \<le> j" "j \<le> 104"
  shows "round32 (of_int k * 2 powi j) = Finite (of_int k * 2 powi j)"
proof (cases "k = 0")
  case True
  then show ?thesis
    by (simp add: round32_def)
next
  case False
  let ?x = "real_of_int k * 2 powi j"
  have x0: "?x \<noteq> 0"
    using False by simp
  define e where "e = max (\<lfloor>log 2 \<bar>?x\<bar>\<rfloor> - 23) (- 149)"
  have pj: "0 < (2::real) powi j"
    by (rule zero_less_power_int) simp
  have "real_of_int \<bar>k\<bar> < real_of_int (2 ^ 24)"
    using k by (simp only: of_int_less_iff)
  then have "\<bar>real_of_int k\<bar> < 2 ^ 24"
    by simp
  then have "\<bar>real_of_int k\<bar> * 2 powi j < 2 ^ 24 * 2 powi j"
    using pj by (rule mult_strict_right_mono)
  then have "\<bar>?x\<bar> < 2 ^ 24 * 2 powi j"
    using pj by (simp add: abs_mult)
  also have "\<dots> = 2 powi (j + 24)"
    by (simp add: power_int_add)
  finally have up: "\<bar>?x\<bar> < 2 powi (j + 24)" .
  have "\<lfloor>log 2 \<bar>?x\<bar>\<rfloor> < j + 24"
  proof (rule ccontr)
    assume "\<not> \<lfloor>log 2 \<bar>?x\<bar>\<rfloor> < j + 24"
    then have "(2::real) powi (j + 24) \<le> 2 powi \<lfloor>log 2 \<bar>?x\<bar>\<rfloor>"
      by (intro power_int_increasing) simp_all
    with exponent_bounds(1) [OF x0] up show False
      by linarith
  qed
  then have "\<lfloor>log 2 \<bar>?x\<bar>\<rfloor> - 23 \<le> j"
    by linarith
  with j(1) have ej: "e \<le> j"
    unfolding e_def by simp
  then obtain d where d: "j = e + int d"
    by (metis zle_iff_zadd)
  have scale: "?x / 2 powi e = of_int (k * 2 ^ d)"
    by (simp add: d power_int_add)
  have restore: "real_of_int (k * 2 ^ d) * 2 powi e = ?x"
    by (simp add: d power_int_add)
  have "\<bar>?x\<bar> < 2 powi (104 + 24)"
    using up j(2) power_int_increasing [of "j + 24" "104 + 24" "2::real"] by simp
  then have fin: "\<not> \<bar>?x\<bar> \<ge> 2 ^ 128"
    by simp
  show ?thesis
    using x0 fin unfolding round32_def Let_def e_def [symmetric] scale round_even_int restore
    by simp
qed

lemma round32_of_int:
  assumes "\<bar>k\<bar> \<le> 2 ^ 24"
  shows "round32 (of_int k) = Finite (of_int k)"
proof (cases "\<bar>k\<bar> = 2 ^ 24")
  case True
  have "k = 2 ^ 23 * 2 \<or> k = - (2 ^ 23) * 2"
    using True by (simp add: abs_if split: if_splits)
  then have "real_of_int k = of_int (k div 2) * 2 powi 1" "\<bar>k div 2\<bar> < 2 ^ 24"
    by auto
  then show ?thesis
    using round32_exact [of "k div 2" 1] by simp
next
  case False
  with assms have "\<bar>k\<bar> < 2 ^ 24"
    by simp
  then show ?thesis
    using round32_exact [of k 0] by simp
qed


lemma round32_at:
  assumes "s = 2 powi e" "- 149 \<le> e" "2 ^ 23 * s \<le> \<bar>x\<bar>" "\<bar>x\<bar> < 2 ^ 24 * s"
    and "m = round_even (x / s)" "\<bar>of_int m * s\<bar> < 2 ^ 128"
  shows "round32 x = Finite (of_int m * s)"
proof -
  have "2 powi (e + 23) \<le> \<bar>x\<bar>" "\<bar>x\<bar> < 2 powi (e + 24)"
    using assms(3,4) by (simp_all add: assms(1) power_int_add mult.commute)
  from round32_normal [OF this assms(2)] show ?thesis
    using assms(6) by (simp add: Let_def assms(1,5))
qed

lemma round32_0 [simp]: "round32 0 = Finite 0"
  by (simp add: round32_def)

lemma round32_1 [simp]: "round32 1 = Finite 1"
  using round32_of_int [of 1] by simp

lemma round32_numeral:
  "(numeral n :: int) \<le> 16777216 \<Longrightarrow> round32 (numeral n) = Finite (numeral n)"
  using round32_of_int [of "numeral n"] by simp

lemma round32_dyadic:
  assumes "\<bar>k\<bar> < 2 ^ 24" "j \<le> 149"
  shows "round32 (of_int k / 2 ^ j) = Finite (of_int k / 2 ^ j)"
  using round32_exact [of k "- int j"] assms
  by (simp add: power_int_minus divide_inverse)


lemma float_of_int_exact:
  "\<bar>k\<bar> \<le> 2 ^ 24 \<Longrightarrow> float_of_int k = Finite (of_int k)"
  by (simp add: float_of_int_def round32_of_int)

subsection \<open>Comparison and negation\<close>

lemma flt_irrefl [simp]: "\<not> flt a a"
  by (cases a) simp_all

lemma flt_asym: "flt a b \<Longrightarrow> \<not> flt b a"
  by (cases a; cases b) simp_all

lemma flt_trans: "flt a b \<Longrightarrow> flt b c \<Longrightarrow> flt a c"
  by (cases a; cases b; cases c) simp_all

lemma fneg_fneg [simp]: "fneg (fneg a) = a"
  by (cases a) simp_all

lemma flt_fneg [simp]:
  "flt (Finite 0) (fneg a) \<longleftrightarrow> flt a (Finite 0)"
  "flt (fneg a) (Finite 0) \<longleftrightarrow> flt (Finite 0) a"
  by (cases a; simp)+






subsection \<open>The literals of the source\<close>

lemma f32_005: "f32 (1 / 20) = Finite (13421773 / 268435456)"
  unfolding f32_def
  by (rule round32_at [where e = "- 28" and s = "1 / 268435456" and m = 13421773, THEN trans])
    (simp_all add: power_int_minus round_even_def Let_def)

lemma f32_095: "f32 (19 / 20) = Finite (15938355 / 16777216)"
  unfolding f32_def
  by (rule round32_at [where e = "- 24" and s = "1 / 16777216" and m = 15938355, THEN trans])
    (simp_all add: power_int_minus round_even_def Let_def)

lemma f32_03: "f32 (3 / 10) = Finite (5033165 / 16777216)"
  unfolding f32_def
  by (rule round32_at [where e = "- 25" and s = "1 / 33554432" and m = 10066330, THEN trans])
    (simp_all add: power_int_minus round_even_def Let_def)

lemma f32_025: "f32 (1 / 4) = Finite (1 / 4)"
  unfolding f32_def using round32_dyadic [of 1 2] by simp

lemma round32_70_99: "round32 (70 / 99) = Finite (5931339 / 8388608)"
  by (rule round32_at [where e = "- 24" and s = "1 / 16777216" and m = 11862678, THEN trans])
    (simp_all add: power_int_minus round_even_def Let_def)

lemma a4_ratio: "fdiv (Finite 210) (Finite 297) = Finite (5931339 / 8388608)"
  by (simp add: round32_70_99)

section \<open>Evaluation lemmas\<close>

lemma sqrt_10000: "sqrt 10000 = 100"
  by (rule real_sqrt_unique) simp_all

lemma sqrt_160000: "sqrt 160000 = 400"
  by (rule real_sqrt_unique) simp_all

lemma sqrt_44100: "sqrt 44100 = 210"
  by (rule real_sqrt_unique) simp_all

lemma sqrt_88209: "sqrt 88209 = 297"
  by (rule real_sqrt_unique) simp_all

lemma sqrt_15625_16: "sqrt (15625 / 16) = 125 / 4"
  by (rule real_sqrt_unique) (simp_all add: power2_eq_square)

lemma upt_0_10: "[0..<10] = [0, 1, 2, 3, 4, 5, 6, 7, 8, 9]"
  by code_simp

lemma upt_0_9: "[0..<9] = [0, 1, 2, 3, 4, 5, 6, 7, 8]"
  by code_simp

lemma upt_0_5: "[0..<5] = [0, 1, 2, 3, 4]"
  by code_simp

lemma upt_0_4: "[0..<4] = [0, 1, 2, 3]"
  by code_simp

lemma upt_0_3: "[0..<3] = [0, 1, 2]"
  by code_simp

lemmas float_eval =
  float_of_int_def float_of_double_def fsub_def fmin_def fmax_def
  round32_numeral round32_minus f32_005 f32_095 f32_03 f32_025 a4_ratio

lemmas homography_eval =
  compute_homography_internal_def hg_find_homography_from_points_def read_points_def
  cv_example_def gray_image_def identity3_def mat3_def Let_def
  MIN_MATCHES_def RATIO_THRESH_def RANSAC_THRESH_def result0_def empty_Mat_def keypoint_at_def
  finish_result_def scene_corners_of_def is_convex_def cross_product_def
  aspect_distortion_def top_edge_def left_edge_def atan2_exact_def float_eval
  sqrt_10000 sqrt_160000 upt_0_10 upt_0_9 upt_0_5 upt_0_4 upt_0_3 ones10_def nine_of_ten_def ramp10_def

section \<open>Fewer than four correspondences\<close>

text \<open>
  C1. For every call of \<open>hg_find_homography_from_points\<close> with four non-null arrays and
  \<open>num_points < 4\<close>, the function returns a result (no undefined read, and no call into
  the library), with status 0 and with \<open>num_matches\<close> equal to the supplied
  \<open>num_points\<close>.
\<close>

theorem from_points_too_few:
  assumes "pts0_x \<noteq> None" "pts0_y \<noteq> None" "pts1_x \<noteq> None" "pts1_y \<noteq> None"
    and "num_points < 4"
  shows "\<exists>r. hg_find_homography_from_points cv pts0_x pts0_y pts1_x pts1_y num_points w h
               = ([], Inr r)
             \<and> status r = 0 \<and> num_matches r = num_points"
  using assms by (simp add: hg_find_homography_from_points_def)

theorem from_points_too_few_witness:
  "\<exists>r. hg_find_homography_from_points (cv_example 0 identity3 [] [] 0)
          (Some [Finite 0, Finite 1, Finite 2]) (Some [Finite 0, Finite 0, Finite 1])
          (Some [Finite 5, Finite 6, Finite 7]) (Some [Finite 5, Finite 5, Finite 6]) 3 640 480
        = ([], Inr r) \<and> status r = 0 \<and> num_matches r = 3"
  using from_points_too_few [of "Some [Finite 0, Finite 1, Finite 2]" "Some [Finite 0, Finite 0, Finite 1]"
      "Some [Finite 5, Finite 6, Finite 7]" "Some [Finite 5, Finite 5, Finite 6]" 3
      "cv_example 0 identity3 [] [] 0" 640 480]
  by simp

text \<open>
  C9. In \<open>hg_find_homography_from_points\<close> the point-count check precedes the dimension
  check: with four non-null arrays, \<open>num_points < 4\<close> and a non-positive anchor width or
  height, the result is status 0 with \<open>num_matches = num_points\<close>; and a result of status
  -1 is returned only when \<open>num_points \<ge> 4\<close> (and a dimension is non-positive).
\<close>

theorem count_check_precedes_dimension_check:
  assumes "pts0_x \<noteq> None" "pts0_y \<noteq> None" "pts1_x \<noteq> None" "pts1_y \<noteq> None"
  shows "(num_points < 4 \<and> (anchor_width \<le> 0 \<or> anchor_height \<le> 0) \<longrightarrow>
            (\<exists>r. hg_find_homography_from_points cv pts0_x pts0_y pts1_x pts1_y
                    num_points anchor_width anchor_height = ([], Inr r)
                  \<and> status r = 0 \<and> num_matches r = num_points))
       \<and> (\<forall>r. snd (hg_find_homography_from_points cv pts0_x pts0_y pts1_x pts1_y
                       num_points anchor_width anchor_height) = Inr r
                \<and> status r = -1
              \<longrightarrow> 4 \<le> num_points \<and> (anchor_width \<le> 0 \<or> anchor_height \<le> 0))"
  using assms
  by (auto simp add: hg_find_homography_from_points_def Let_def finish_result_def result0_def
      split: sum.splits prod.splits if_splits)

theorem count_check_precedes_dimension_check_witness:
  "(\<exists>r. hg_find_homography_from_points (cv_example 0 identity3 [] [] 0)
           (Some [Finite 0, Finite 1]) (Some [Finite 0, Finite 0])
           (Some [Finite 5, Finite 6]) (Some [Finite 5, Finite 5]) 2 0 (-480) = ([], Inr r)
         \<and> status r = 0 \<and> num_matches r = 2)
   \<and> (\<exists>r. snd (hg_find_homography_from_points (cv_example 0 identity3 [] [] 0)
           (Some [Finite 0, Finite 1, Finite 2, Finite 3]) (Some [Finite 0, Finite 0, Finite 1, Finite 1])
           (Some [Finite 5, Finite 6, Finite 7, Finite 8]) (Some [Finite 5, Finite 5, Finite 6, Finite 6])
           4 0 480) = Inr r \<and> status r = -1)"
  using count_check_precedes_dimension_check
    [of "Some [Finite 0, Finite 1]" "Some [Finite 0, Finite 0]"
      "Some [Finite 5, Finite 6]" "Some [Finite 5, Finite 5]" 2 0 "-480"
      "cv_example 0 identity3 [] [] 0"]
    count_check_precedes_dimension_check
    [of "Some [Finite 0, Finite 1, Finite 2, Finite 3]" "Some [Finite 0, Finite 0, Finite 1, Finite 1]"
      "Some [Finite 5, Finite 6, Finite 7, Finite 8]" "Some [Finite 5, Finite 5, Finite 6, Finite 6]" 4 0 480
      "cv_example 0 identity3 [] [] 0"]
  by (simp add: hg_find_homography_from_points_def result0_def)

section \<open>The inlier policy\<close>

lemma internal_policy:
  assumes "detectAndCompute cv anchor_gray = (kp_anchor, desc_anchor)"
    and "detectAndCompute cv scene_gray = (kp_scene, desc_scene)"
    and "4 \<le> length kp_anchor" "4 \<le> length kp_scene"
    and "\<not> empty_Mat desc_anchor" "\<not> empty_Mat desc_scene"
    and "ratio_test (knnMatch cv desc_anchor desc_scene 2) = good_matches"
    and "10 \<le> length good_matches"
    and "extract_points kp_anchor kp_scene good_matches = Inr (pts_anchor, pts_scene)"
    and "findHomographyRANSAC cv pts_anchor pts_scene RANSAC_THRESH = (H, inliers_mask)"
    and "\<not> empty_Mat H" "rows H = 3" "cols H = 3"
  shows "(\<forall>r. snd (compute_homography_internal cv anchor_gray scene_gray) = Inr r \<and> status r = 1
            \<longrightarrow> 10 \<le> count_inliers inliers_mask
                \<and> 0.3 * real (length good_matches) \<le> real_of_int (count_inliers inliers_mask))
       \<and> (\<not> (10 \<le> count_inliers inliers_mask
                \<and> 0.3 * real (length good_matches) \<le> real_of_int (count_inliers inliers_mask))
            \<longrightarrow> (\<exists>r. snd (compute_homography_internal cv anchor_gray scene_gray) = Inr r
                  \<and> status r = 0))"
  using assms
  by (auto simp add: compute_homography_internal_def Let_def MIN_MATCHES_def result0_def)

lemma from_points_policy:
  assumes "pts0_x = Some ax" "pts0_y = Some ay" "pts1_x = Some sx" "pts1_y = Some sy"
    and "4 \<le> num_points" "0 < anchor_width" "0 < anchor_height"
    and "read_points ax ay num_points = Inr pts_anchor"
    and "read_points sx sy num_points = Inr pts_scene"
    and "findHomographyRANSAC cv pts_anchor pts_scene RANSAC_THRESH = (H, inliers_mask)"
    and "\<not> empty_Mat H" "rows H = 3" "cols H = 3"
  shows "(\<forall>r. snd (hg_find_homography_from_points cv pts0_x pts0_y pts1_x pts1_y
                      num_points anchor_width anchor_height) = Inr r
              \<and> status r = 1
            \<longrightarrow> 10 \<le> count_inliers inliers_mask
                \<and> 0.3 * real_of_int num_points \<le> real_of_int (count_inliers inliers_mask))
       \<and> (\<not> (10 \<le> count_inliers inliers_mask
                \<and> 0.3 * real_of_int num_points \<le> real_of_int (count_inliers inliers_mask))
            \<longrightarrow> (\<exists>r. snd (hg_find_homography_from_points cv pts0_x pts0_y pts1_x pts1_y
                            num_points anchor_width anchor_height) = Inr r
                  \<and> status r = 0))"
  using assms
  by (auto simp add: hg_find_homography_from_points_def Let_def MIN_MATCHES_def result0_def)

text \<open>
  The source computes the product with 0.3 in \<open>double\<close>. The \<open>double\<close> nearest to 0.3
  is \<open>5404319552844595 / 2 ^ 54\<close>. For every rounding that is monotone and exact on the
  numbers with a 53-bit significand, and for 32-bit counts, the rounded product compares
  with the number of inliers exactly as the exact product with 0.3 does: the exact
  arithmetic of the model loses nothing here.
\<close>

lemma double_policy_exact:
  fixes rnd :: "real \<Rightarrow> real" and n i :: int
  assumes rnd_mono: "\<And>x y. x \<le> y \<Longrightarrow> rnd x \<le> rnd y"
    and rnd_exact: "\<And>k j. \<bar>k\<bar> < 2 ^ 53 \<Longrightarrow> rnd (real_of_int k / 2 ^ j) = real_of_int k / 2 ^ j"
    and n: "0 \<le> n" "n < 2 ^ 31" and i: "\<bar>i\<bar> < 2 ^ 31"
  shows "real_of_int i < rnd (real_of_int n * (5404319552844595 / 2 ^ 54))
         \<longleftrightarrow> real_of_int i < 0.3 * real_of_int n"
proof -
  define c :: real where "c = 5404319552844595 / 2 ^ 54"
  have c: "c = 3 / 10 - 1 / 90071992547409920"
    by (simp add: c_def)
  have rn: "0 \<le> real_of_int n" "real_of_int n < 2147483648"
    using n by simp_all
  have x_le: "real_of_int n * c \<le> 3 / 10 * real_of_int n"
    using rn unfolding c by (simp add: algebra_simps)
  have x_ge: "3 / 10 * real_of_int n - 1 / 1000 \<le> real_of_int n * c"
    using rn unfolding c by (simp add: algebra_simps)
  have exact_i: "rnd (real_of_int i) = real_of_int i"
    using rnd_exact [of i 0] i by simp
  have t: "\<bar>16 * i + 1\<bar> < 2 ^ 53"
    using i by simp
  have exact_t: "rnd (real_of_int (16 * i + 1) / 2 ^ 4) = real_of_int (16 * i + 1) / 2 ^ 4"
    using t by (rule rnd_exact)
  show ?thesis
    unfolding c_def [symmetric]
  proof
    assume a: "real_of_int i < rnd (real_of_int n * c)"
    show "real_of_int i < 0.3 * real_of_int n"
    proof (rule ccontr)
      assume "\<not> real_of_int i < 0.3 * real_of_int n"
      with x_le have "real_of_int n * c \<le> real_of_int i"
        by simp
      then have "rnd (real_of_int n * c) \<le> rnd (real_of_int i)"
        by (rule rnd_mono)
      with exact_i a show False
        by simp
    qed
  next
    assume a: "real_of_int i < 0.3 * real_of_int n"
    then have "real_of_int (10 * i) < real_of_int (3 * n)"
      by simp
    then have "10 * i < 3 * n"
      by (simp only: of_int_less_iff)
    then have "10 * i + 1 \<le> 3 * n"
      by simp
    then have "real_of_int (10 * i + 1) \<le> real_of_int (3 * n)"
      by (simp only: of_int_le_iff)
    then have "10 * real_of_int i + 1 \<le> 3 * real_of_int n"
      by simp
    with x_ge have "real_of_int (16 * i + 1) / 2 ^ 4 \<le> real_of_int n * c"
      by simp
    then have "rnd (real_of_int (16 * i + 1) / 2 ^ 4) \<le> rnd (real_of_int n * c)"
      by (rule rnd_mono)
    with exact_t show "real_of_int i < rnd (real_of_int n * c)"
      by simp
  qed
qed

text \<open>
  C2. Whenever the robust estimation produces a non-empty 3x3 matrix, in the image-matching
  pipeline and in the from-points entry point alike, the result has status 1 only if the
  number of inliers is at least 10 and at least 0.3 times the number of correspondences
  given to the estimator; if either condition fails the result has status 0.
\<close>

theorem inlier_policy:
  "(detectAndCompute cv anchor_gray = (kp_anchor, desc_anchor)
      \<and> detectAndCompute cv scene_gray = (kp_scene, desc_scene)
      \<and> 4 \<le> length kp_anchor \<and> 4 \<le> length kp_scene
      \<and> \<not> empty_Mat desc_anchor \<and> \<not> empty_Mat desc_scene
      \<and> ratio_test (knnMatch cv desc_anchor desc_scene 2) = good_matches
      \<and> 10 \<le> length good_matches
      \<and> extract_points kp_anchor kp_scene good_matches = Inr (pts_anchor, pts_scene)
      \<and> findHomographyRANSAC cv pts_anchor pts_scene RANSAC_THRESH = (H, inliers_mask)
      \<and> \<not> empty_Mat H \<and> rows H = 3 \<and> cols H = 3
    \<longrightarrow>
      (\<forall>r. snd (compute_homography_internal cv anchor_gray scene_gray) = Inr r \<and> status r = 1
          \<longrightarrow> 10 \<le> count_inliers inliers_mask
              \<and> 0.3 * real (length good_matches) \<le> real_of_int (count_inliers inliers_mask))
      \<and> (\<not> (10 \<le> count_inliers inliers_mask
              \<and> 0.3 * real (length good_matches) \<le> real_of_int (count_inliers inliers_mask))
          \<longrightarrow> (\<exists>r. snd (compute_homography_internal cv anchor_gray scene_gray) = Inr r
                \<and> status r = 0)))
   \<and>
   (pts0_x = Some ax \<and> pts0_y = Some ay \<and> pts1_x = Some sx \<and> pts1_y = Some sy
      \<and> 4 \<le> num_points \<and> 0 < anchor_width \<and> 0 < anchor_height
      \<and> read_points ax ay num_points = Inr pts_anchor'
      \<and> read_points sx sy num_points = Inr pts_scene'
      \<and> findHomographyRANSAC cv pts_anchor' pts_scene' RANSAC_THRESH = (H', inliers_mask')
      \<and> \<not> empty_Mat H' \<and> rows H' = 3 \<and> cols H' = 3
    \<longrightarrow>
      (\<forall>r. snd (hg_find_homography_from_points cv pts0_x pts0_y pts1_x pts1_y
                    num_points anchor_width anchor_height) = Inr r
            \<and> status r = 1
          \<longrightarrow> 10 \<le> count_inliers inliers_mask'
              \<and> 0.3 * real_of_int num_points \<le> real_of_int (count_inliers inliers_mask'))
      \<and> (\<not> (10 \<le> count_inliers inliers_mask'
              \<and> 0.3 * real_of_int num_points \<le> real_of_int (count_inliers inliers_mask'))
          \<longrightarrow> (\<exists>r. snd (hg_find_homography_from_points cv pts0_x pts0_y pts1_x pts1_y
                          num_points anchor_width anchor_height) = Inr r
                \<and> status r = 0)))"
proof (intro conjI impI)
  assume a: "detectAndCompute cv anchor_gray = (kp_anchor, desc_anchor)
      \<and> detectAndCompute cv scene_gray = (kp_scene, desc_scene)
      \<and> 4 \<le> length kp_anchor \<and> 4 \<le> length kp_scene
      \<and> \<not> empty_Mat desc_anchor \<and> \<not> empty_Mat desc_scene
      \<and> ratio_test (knnMatch cv desc_anchor desc_scene 2) = good_matches
      \<and> 10 \<le> length good_matches
      \<and> extract_points kp_anchor kp_scene good_matches = Inr (pts_anchor, pts_scene)
      \<and> findHomographyRANSAC cv pts_anchor pts_scene RANSAC_THRESH = (H, inliers_mask)
      \<and> \<not> empty_Mat H \<and> rows H = 3 \<and> cols H = 3"
  note p = internal_policy [of cv anchor_gray kp_anchor desc_anchor scene_gray kp_scene desc_scene
      good_matches pts_anchor pts_scene H inliers_mask]
  from a p show "\<forall>r. snd (compute_homography_internal cv anchor_gray scene_gray) = Inr r \<and> status r = 1
          \<longrightarrow> 10 \<le> count_inliers inliers_mask
              \<and> 0.3 * real (length good_matches) \<le> real_of_int (count_inliers inliers_mask)"
    by blast
  assume "\<not> (10 \<le> count_inliers inliers_mask
              \<and> 0.3 * real (length good_matches) \<le> real_of_int (count_inliers inliers_mask))"
  with a p show "\<exists>r. snd (compute_homography_internal cv anchor_gray scene_gray) = Inr r
                \<and> status r = 0"
    by blast
next
  assume a: "pts0_x = Some ax \<and> pts0_y = Some ay \<and> pts1_x = Some sx \<and> pts1_y = Some sy
      \<and> 4 \<le> num_points \<and> 0 < anchor_width \<and> 0 < anchor_height
      \<and> read_points ax ay num_points = Inr pts_anchor'
      \<and> read_points sx sy num_points = Inr pts_scene'
      \<and> findHomographyRANSAC cv pts_anchor' pts_scene' RANSAC_THRESH = (H', inliers_mask')
      \<and> \<not> empty_Mat H' \<and> rows H' = 3 \<and> cols H' = 3"
  note p = from_points_policy [of pts0_x ax pts0_y ay pts1_x sx pts1_y sy num_points
      anchor_width anchor_height pts_anchor' pts_scene' cv H' inliers_mask']
  from a p show "\<forall>r. snd (hg_find_homography_from_points cv pts0_x pts0_y pts1_x pts1_y
                    num_points anchor_width anchor_height) = Inr r
            \<and> status r = 1
          \<longrightarrow> 10 \<le> count_inliers inliers_mask'
              \<and> 0.3 * real_of_int num_points \<le> real_of_int (count_inliers inliers_mask')"
    by blast
  assume "\<not> (10 \<le> count_inliers inliers_mask'
              \<and> 0.3 * real_of_int num_points \<le> real_of_int (count_inliers inliers_mask'))"
  with a p show "\<exists>r. snd (hg_find_homography_from_points cv pts0_x pts0_y pts1_x pts1_y
                          num_points anchor_width anchor_height) = Inr r
                \<and> status r = 0"
    by blast
qed

theorem inlier_policy_witness:
  "snd (compute_homography_internal (cv_example 10 identity3 ones10 [] 0)
          (gray_image 100 100) (gray_image 100 100))
     = Inr \<lparr>center_x = Finite 50, center_y = Finite 50, rotation = Finite 0, scale = Finite 1,
             homography = [1, 0, 0, 0, 1, 0, 0, 0, 1],
             corners = [Finite 0, Finite 0, Finite 100, Finite 0, Finite 100, Finite 100,
                        Finite 0, Finite 100],
             num_matches = 10, status = 1\<rparr>
   \<and> snd (hg_find_homography_from_points (cv_example 10 identity3 ones10 [] 0)
          (Some ramp10) (Some ramp10) (Some ramp10) (Some ramp10) 10 100 100)
     = Inr \<lparr>center_x = Finite 50, center_y = Finite 50, rotation = Finite 0, scale = Finite 1,
             homography = [1, 0, 0, 0, 1, 0, 0, 0, 1],
             corners = [Finite 0, Finite 0, Finite 100, Finite 0, Finite 100, Finite 100,
                        Finite 0, Finite 100],
             num_matches = 10, status = 1\<rparr>
   \<and> 10 \<le> count_inliers ones10 \<and> 0.3 * real_of_int 10 \<le> real_of_int (count_inliers ones10)
   \<and> snd (compute_homography_internal (cv_example 10 identity3 nine_of_ten [] 0)
          (gray_image 100 100) (gray_image 100 100))
     = Inr (result0\<lparr>num_matches := 10, status := 0\<rparr>)
   \<and> snd (hg_find_homography_from_points (cv_example 10 identity3 nine_of_ten [] 0)
          (Some ramp10) (Some ramp10) (Some ramp10) (Some ramp10) 10 100 100)
     = Inr (result0\<lparr>num_matches := 10, status := 0\<rparr>)
   \<and> \<not> 10 \<le> count_inliers nine_of_ten"
  using inlier_policy
    [where cv = "cv_example 10 identity3 ones10 [] 0"
       and anchor_gray = "gray_image 100 100" and scene_gray = "gray_image 100 100"
       and kp_anchor = "fst (detectAndCompute (cv_example 10 identity3 ones10 [] 0) (gray_image 100 100))"
       and desc_anchor = "snd (detectAndCompute (cv_example 10 identity3 ones10 [] 0) (gray_image 100 100))"
       and kp_scene = "fst (detectAndCompute (cv_example 10 identity3 ones10 [] 0) (gray_image 100 100))"
       and desc_scene = "snd (detectAndCompute (cv_example 10 identity3 ones10 [] 0) (gray_image 100 100))"
       and good_matches = "map (\<lambda>i. \<lparr>queryIdx = i, trainIdx = i, distance = 10\<rparr>) [0, 1, 2, 3, 4, 5, 6, 7, 8, 9]"
       and pts_anchor = "map (\<lambda>i. Point2f i i) ramp10"
       and pts_scene = "map (\<lambda>i. Point2f i i) ramp10"
       and H = identity3 and inliers_mask = ones10
       and pts0_x = "Some ramp10" and pts0_y = "Some ramp10"
       and pts1_x = "Some ramp10" and pts1_y = "Some ramp10"
       and ax = ramp10 and ay = ramp10 and sx = ramp10 and sy = ramp10
       and num_points = 10 and anchor_width = 100 and anchor_height = 100
       and pts_anchor' = "map (\<lambda>i. Point2f i i) ramp10"
       and pts_scene' = "map (\<lambda>i. Point2f i i) ramp10"
       and H' = identity3 and inliers_mask' = ones10]
    inlier_policy
    [where cv = "cv_example 10 identity3 nine_of_ten [] 0"
       and anchor_gray = "gray_image 100 100" and scene_gray = "gray_image 100 100"
       and kp_anchor = "fst (detectAndCompute (cv_example 10 identity3 nine_of_ten [] 0) (gray_image 100 100))"
       and desc_anchor = "snd (detectAndCompute (cv_example 10 identity3 nine_of_ten [] 0) (gray_image 100 100))"
       and kp_scene = "fst (detectAndCompute (cv_example 10 identity3 nine_of_ten [] 0) (gray_image 100 100))"
       and desc_scene = "snd (detectAndCompute (cv_example 10 identity3 nine_of_ten [] 0) (gray_image 100 100))"
       and good_matches = "map (\<lambda>i. \<lparr>queryIdx = i, trainIdx = i, distance = 10\<rparr>) [0, 1, 2, 3, 4, 5, 6, 7, 8, 9]"
       and pts_anchor = "map (\<lambda>i. Point2f i i) ramp10"
       and pts_scene = "map (\<lambda>i. Point2f i i) ramp10"
       and H = identity3 and inliers_mask = nine_of_ten
       and pts0_x = "Some ramp10" and pts0_y = "Some ramp10"
       and pts1_x = "Some ramp10" and pts1_y = "Some ramp10"
       and ax = ramp10 and ay = ramp10 and sx = ramp10 and sy = ramp10
       and num_points = 10 and anchor_width = 100 and anchor_height = 100
       and pts_anchor' = "map (\<lambda>i. Point2f i i) ramp10"
       and pts_scene' = "map (\<lambda>i. Point2f i i) ramp10"
       and H' = identity3 and inliers_mask' = nine_of_ten]
  by (simp add: homography_eval)

section \<open>Early rejection in the matching pipeline\<close>

lemma ratio_test_filter:
  "ratio_test knn_matches =
     map (\<lambda>m. m ! 0)
       (filter (\<lambda>m. length m = 2 \<and> distance (m ! 0) < 0.75 * distance (m ! 1)) knn_matches)"
  by (induction knn_matches) (simp_all add: RATIO_THRESH_def)

text \<open>
  C6. For every pair of images the matching pipeline returns status 0, without calling the
  homography estimator, whenever either image yields fewer than 4 keypoints or an empty
  descriptor set, and whenever fewer than 10 matches survive the ratio test; in the latter
  rejection \<open>num_matches\<close> is the number of surviving matches. The survivors are the first
  neighbours of the pairs whose nearest distance is strictly less than 0.75 times the
  second-nearest distance.
\<close>

theorem matcher_early_rejection:
  assumes "detectAndCompute cv anchor_gray = (kp_anchor, desc_anchor)"
    and "detectAndCompute cv scene_gray = (kp_scene, desc_scene)"
  shows "(length kp_anchor < 4 \<or> length kp_scene < 4
            \<or> empty_Mat desc_anchor \<or> empty_Mat desc_scene
          \<longrightarrow> (\<exists>calls r. compute_homography_internal cv anchor_gray scene_gray = (calls, Inr r)
                  \<and> status r = 0 \<and> FindHomography \<notin> set calls))
       \<and> (length (ratio_test (knnMatch cv desc_anchor desc_scene 2)) < 10
          \<longrightarrow> (\<exists>calls r. compute_homography_internal cv anchor_gray scene_gray = (calls, Inr r)
                  \<and> status r = 0 \<and> FindHomography \<notin> set calls
                  \<and> (4 \<le> length kp_anchor \<and> 4 \<le> length kp_scene
                       \<and> \<not> empty_Mat desc_anchor \<and> \<not> empty_Mat desc_scene
                     \<longrightarrow> num_matches r
                         = int (length (ratio_test (knnMatch cv desc_anchor desc_scene 2))))))
       \<and> (\<forall>knn_matches. ratio_test knn_matches =
             map (\<lambda>m. m ! 0)
               (filter (\<lambda>m. length m = 2 \<and> distance (m ! 0) < 0.75 * distance (m ! 1))
                  knn_matches))"
  using assms
  by (auto simp add: compute_homography_internal_def Let_def MIN_MATCHES_def result0_def
      ratio_test_filter)

theorem matcher_early_rejection_witness:
  "compute_homography_internal (cv_example 3 identity3 ones10 [] 0)
       (gray_image 100 100) (gray_image 100 100)
     = ([DetectAndCompute, DetectAndCompute], Inr (result0\<lparr>status := 0\<rparr>))
   \<and> compute_homography_internal (cv_example 5 identity3 ones10 [] 0)
       (gray_image 100 100) (gray_image 100 100)
     = ([DetectAndCompute, DetectAndCompute, KnnMatch],
        Inr (result0\<lparr>num_matches := 5, status := 0\<rparr>))
   \<and> length (ratio_test (knnMatch (cv_example 5 identity3 ones10 [] 0)
                (snd (detectAndCompute (cv_example 5 identity3 ones10 [] 0) (gray_image 100 100)))
                (snd (detectAndCompute (cv_example 5 identity3 ones10 [] 0) (gray_image 100 100)))
                2)) = 5"
  using matcher_early_rejection
    [where cv = "cv_example 3 identity3 ones10 [] 0"
       and anchor_gray = "gray_image 100 100" and scene_gray = "gray_image 100 100"
       and kp_anchor = "fst (detectAndCompute (cv_example 3 identity3 ones10 [] 0) (gray_image 100 100))"
       and desc_anchor = "snd (detectAndCompute (cv_example 3 identity3 ones10 [] 0) (gray_image 100 100))"
       and kp_scene = "fst (detectAndCompute (cv_example 3 identity3 ones10 [] 0) (gray_image 100 100))"
       and desc_scene = "snd (detectAndCompute (cv_example 3 identity3 ones10 [] 0) (gray_image 100 100))"]
    matcher_early_rejection
    [where cv = "cv_example 5 identity3 ones10 [] 0"
       and anchor_gray = "gray_image 100 100" and scene_gray = "gray_image 100 100"
       and kp_anchor = "fst (detectAndCompute (cv_example 5 identity3 ones10 [] 0) (gray_image 100 100))"
       and desc_anchor = "snd (detectAndCompute (cv_example 5 identity3 ones10 [] 0) (gray_image 100 100))"
       and kp_scene = "fst (detectAndCompute (cv_example 5 identity3 ones10 [] 0) (gray_image 100 100))"
       and desc_scene = "snd (detectAndCompute (cv_example 5 identity3 ones10 [] 0) (gray_image 100 100))"]
  by (simp add: homography_eval)

section \<open>The aspect-distortion check\<close>

text \<open>
  On the accepting path both pipelines hand over to the shared validation.
\<close>

lemma from_points_validation:
  assumes "pts0_x = Some ax" "pts0_y = Some ay" "pts1_x = Some sx" "pts1_y = Some sy"
    and "4 \<le> num_points" "0 < anchor_width" "0 < anchor_height"
    and "read_points ax ay num_points = Inr pts_anchor"
    and "read_points sx sy num_points = Inr pts_scene"
    and "findHomographyRANSAC cv pts_anchor pts_scene RANSAC_THRESH = (H, inliers_mask)"
    and "\<not> empty_Mat H" "rows H = 3" "cols H = 3"
    and "10 \<le> count_inliers inliers_mask"
    and "0.3 * real_of_int num_points \<le> real_of_int (count_inliers inliers_mask)"
  shows "hg_find_homography_from_points cv pts0_x pts0_y pts1_x pts1_y
           num_points anchor_width anchor_height
         = ([FindHomography, PerspectiveTransform],
            Inr (finish_result cv H (count_inliers inliers_mask) anchor_width anchor_height
                   (result0\<lparr>num_matches := num_points\<rparr>)))"
  using assms
  by (simp add: hg_find_homography_from_points_def Let_def MIN_MATCHES_def)

lemma internal_validation:
  assumes "detectAndCompute cv anchor_gray = (kp_anchor, desc_anchor)"
    and "detectAndCompute cv scene_gray = (kp_scene, desc_scene)"
    and "4 \<le> length kp_anchor" "4 \<le> length kp_scene"
    and "\<not> empty_Mat desc_anchor" "\<not> empty_Mat desc_scene"
    and "ratio_test (knnMatch cv desc_anchor desc_scene 2) = good_matches"
    and "10 \<le> length good_matches"
    and "extract_points kp_anchor kp_scene good_matches = Inr (pts_anchor, pts_scene)"
    and "findHomographyRANSAC cv pts_anchor pts_scene RANSAC_THRESH = (H, inliers_mask)"
    and "\<not> empty_Mat H" "rows H = 3" "cols H = 3"
    and "10 \<le> count_inliers inliers_mask"
    and "0.3 * real (length good_matches) \<le> real_of_int (count_inliers inliers_mask)"
  shows "compute_homography_internal cv anchor_gray scene_gray
         = ([DetectAndCompute, DetectAndCompute, KnnMatch, FindHomography, PerspectiveTransform],
            Inr (finish_result cv H (count_inliers inliers_mask) (cols anchor_gray) (rows anchor_gray)
                   (result0\<lparr>num_matches := int (length good_matches)\<rparr>)))"
  using assms
  by (simp add: compute_homography_internal_def Let_def MIN_MATCHES_def)

lemma status_finish_result:
  "status (finish_result cv H num_inliers width height result) =
     (if \<not> is_convex (scene_corners_of cv H width height) then 0
      else if flt (aspect_distortion (scene_corners_of cv H width height)
                     (float_of_int width) (float_of_int height)) (f32 0.3)
            \<or> flt (Finite 3) (aspect_distortion (scene_corners_of cv H width height)
                     (float_of_int width) (float_of_int height))
      then 0 else 1)"
  by (simp add: finish_result_def Let_def)

lemmas dyadic_eval =
  round32_dyadic [of 125 2, simplified] round32_dyadic [of 125 1, simplified]
  round32_dyadic [of 125 3, simplified] round32_dyadic [of 15625 4, simplified]
  round32_dyadic [of 5 4, simplified] round32_dyadic [of 21 4, simplified]
  round32_dyadic [of 21 5, simplified]

text \<open>
  C3, as stated, fails: a quadrilateral whose edge-length ratio is 0.3125 times the
  reference ratio, which is less than 0.33 times, is accepted. The estimated matrix scales
  the 100x100 anchor by 0.3125 in x, so the top edge is 31.25 and the left edge is 100;
  every value of the computation is exact in binary32.
\<close>

theorem aspect_below_033_counterexample:
  "snd (hg_find_homography_from_points
          (cv_example 10 (mat3 [0.3125, 0, 0, 0, 1, 0, 0, 0, 1]) ones10 [] 0)
          (Some ramp10) (Some ramp10) (Some ramp10) (Some ramp10) 10 100 100)
     = Inr \<lparr>center_x = Finite 15.625, center_y = Finite 50, rotation = Finite 0,
             scale = Finite 0.65625,
             homography = [0.3125, 0, 0, 0, 1, 0, 0, 0, 1],
             corners = [Finite 0, Finite 0, Finite 31.25, Finite 0, Finite 31.25, Finite 100,
                        Finite 0, Finite 100],
             num_matches = 10, status = 1\<rparr>
   \<and> fdiv (top_edge [Point2f (Finite 0) (Finite 0), Point2f (Finite 31.25) (Finite 0),
                      Point2f (Finite 31.25) (Finite 100), Point2f (Finite 0) (Finite 100)])
          (left_edge [Point2f (Finite 0) (Finite 0), Point2f (Finite 31.25) (Finite 0),
                      Point2f (Finite 31.25) (Finite 100), Point2f (Finite 0) (Finite 100)])
     = Finite 0.3125
   \<and> fdiv (float_of_int 100) (float_of_int 100) = Finite 1
   \<and> (0.3125 :: real) < 0.33 * 1"
  by (simp add: homography_eval dyadic_eval sqrt_15625_16)

text \<open>
  C3, amended. The aspect-distortion check computes, in binary32,
  \<open>distortion = (top edge / left edge) / reference ratio\<close> and, for a convex
  quadrilateral, rejects (status 0) exactly when \<open>distortion < 0.3f\<close> or
  \<open>distortion > 3.0f\<close>; a distortion that is NaN is not rejected. The literal \<open>0.3f\<close>
  is \<open>5033165 / 2 ^ 24\<close>, just above 0.3. So a quadrilateral whose computed distortion is
  below 0.3 or above 3 is always rejected, a convex one whose computed distortion lies
  between \<open>0.3f\<close> and 3 is accepted, and a convex one whose computed edge ratio equals
  the computed reference ratio (distortion 1) is accepted.
\<close>

theorem aspect_distortion_check:
  assumes "scene_corners_of cv H width height = scene_corners"
    and "fdiv (top_edge scene_corners) (left_edge scene_corners) = observed"
    and "fdiv (float_of_int width) (float_of_int height) = reference"
    and "fdiv observed reference = distortion"
    and "status (finish_result cv H num_inliers width height result) = s"
  shows "aspect_distortion scene_corners (float_of_int width) (float_of_int height) = distortion
       \<and> (is_convex scene_corners \<longrightarrow>
            (s = 0 \<longleftrightarrow> flt distortion (f32 0.3) \<or> flt (Finite 3) distortion)
          \<and> (s = 1 \<longleftrightarrow> \<not> (flt distortion (f32 0.3) \<or> flt (Finite 3) distortion)))
       \<and> (flt distortion (f32 0.3) \<or> flt (Finite 3) distortion \<longrightarrow> s = 0)
       \<and> f32 0.3 = Finite (5033165 / 2 ^ 24)
       \<and> (\<forall>d. distortion = Finite d \<and> (d < 0.3 \<or> 3 < d) \<longrightarrow> s = 0)
       \<and> (\<forall>d. is_convex scene_corners \<and> distortion = Finite d
              \<and> 5033165 / 2 ^ 24 \<le> d \<and> d \<le> 3 \<longrightarrow> s = 1)
       \<and> (\<forall>v. is_convex scene_corners \<and> observed = Finite v \<and> reference = Finite v \<and> v \<noteq> 0
              \<longrightarrow> distortion = Finite 1 \<and> s = 1)"
proof -
  have d: "aspect_distortion scene_corners (float_of_int width) (float_of_int height) = distortion"
    using assms(2,3,4) by (simp add: aspect_distortion_def Let_def)
  have s: "s = (if \<not> is_convex scene_corners then 0
                else if flt distortion (f32 0.3) \<or> flt (Finite 3) distortion then 0 else 1)"
    using assms(5) unfolding status_finish_result assms(1) d by simp
  have lit: "f32 0.3 = Finite (5033165 / 2 ^ 24)"
    by (simp add: f32_03)
  have low: "\<And>d. distortion = Finite d \<Longrightarrow> d < 0.3 \<or> 3 < d \<Longrightarrow> s = 0"
    by (auto simp add: s f32_03)
  have mid: "\<And>d. is_convex scene_corners \<Longrightarrow> distortion = Finite d
                \<Longrightarrow> 5033165 / 2 ^ 24 \<le> d \<Longrightarrow> d \<le> 3 \<Longrightarrow> s = 1"
    by (auto simp add: s f32_03)
  have one: "\<And>v. observed = Finite v \<Longrightarrow> reference = Finite v \<Longrightarrow> v \<noteq> 0
                \<Longrightarrow> distortion = Finite 1"
    using assms(4) by auto
  have acc: "is_convex scene_corners \<Longrightarrow> distortion = Finite 1 \<Longrightarrow> s = 1"
    by (simp add: s f32_03)
  show ?thesis
    using d lit low mid one acc by (auto simp add: s)
qed

theorem aspect_distortion_check_witness:
  "status (finish_result (cv_example 10 identity3 ones10 [] 0) identity3 10 100 100 result0) = 1
   \<and> is_convex (scene_corners_of (cv_example 10 identity3 ones10 [] 0) identity3 100 100)
   \<and> fdiv (top_edge (scene_corners_of (cv_example 10 identity3 ones10 [] 0) identity3 100 100))
          (left_edge (scene_corners_of (cv_example 10 identity3 ones10 [] 0) identity3 100 100))
     = Finite 1
   \<and> fdiv (float_of_int 100) (float_of_int 100) = Finite 1
   \<and> status (finish_result (cv_example 10 identity3 ones10 [] 0)
               (mat3 [4, 0, 0, 0, 1, 0, 0, 0, 1]) 10 100 100 result0) = 0
   \<and> is_convex (scene_corners_of (cv_example 10 identity3 ones10 [] 0)
                  (mat3 [4, 0, 0, 0, 1, 0, 0, 0, 1]) 100 100)
   \<and> fdiv (top_edge (scene_corners_of (cv_example 10 identity3 ones10 [] 0)
                 (mat3 [4, 0, 0, 0, 1, 0, 0, 0, 1]) 100 100))
          (left_edge (scene_corners_of (cv_example 10 identity3 ones10 [] 0)
                 (mat3 [4, 0, 0, 0, 1, 0, 0, 0, 1]) 100 100))
     = Finite 4
   \<and> flt (Finite 3) (Finite 4)"
proof -
  let ?cv = "cv_example 10 identity3 ones10 [] 0"
  let ?H = "mat3 [4, 0, 0, 0, 1, 0, 0, 0, 1]"
  note accepted = aspect_distortion_check
    [where cv = ?cv and H = identity3 and width = 100 and height = 100 and num_inliers = 10
       and result = result0, OF refl refl refl refl refl]
  note rejected = aspect_distortion_check
    [where cv = ?cv and H = ?H and width = 100 and height = 100 and num_inliers = 10
       and result = result0, OF refl refl refl refl refl]
  have one: "fdiv (top_edge (scene_corners_of ?cv identity3 100 100))
                  (left_edge (scene_corners_of ?cv identity3 100 100)) = Finite 1"
    and four: "fdiv (top_edge (scene_corners_of ?cv ?H 100 100))
                  (left_edge (scene_corners_of ?cv ?H 100 100)) = Finite 4"
    and ref: "fdiv (float_of_int 100) (float_of_int 100) = Finite 1"
    and convex: "is_convex (scene_corners_of ?cv identity3 100 100)"
      "is_convex (scene_corners_of ?cv ?H 100 100)"
    by (simp_all add: homography_eval)
  have "status (finish_result ?cv identity3 10 100 100 result0) = 1"
    using accepted convex(1) unfolding one ref by (simp add: round32_numeral f32_03)
  moreover have "status (finish_result ?cv ?H 10 100 100 result0) = 0"
    using rejected unfolding four ref by (simp add: round32_numeral f32_03)
  ultimately show ?thesis
    using one four ref convex by simp
qed

section \<open>The convexity check\<close>

lemma length4E:
  assumes "length pts = 4"
  obtains p0 p1 p2 p3 where "pts = [p0, p1, p2, p3]"
proof -
  from assms obtain p0 r0 where "pts = p0 # r0" "length r0 = 3"
    by (cases pts) auto
  moreover then obtain p1 r1 where "r0 = p1 # r1" "length r1 = 2"
    by (cases r0) auto
  moreover then obtain p2 r2 where "r1 = p2 # r2" "length r2 = 1"
    by (cases r1) auto
  moreover then obtain p3 where "r2 = [p3]"
    by (cases r2) auto
  ultimately show ?thesis
    using that by blast
qed



lemma is_convex_quadrilateral_4:
  "is_convex_quadrilateral [p0, p1, p2, p3] =
     ((flt (Finite 0) (cross_product p0 p1 p2) \<and> flt (Finite 0) (cross_product p1 p2 p3)
         \<and> flt (Finite 0) (cross_product p2 p3 p0) \<and> flt (Finite 0) (cross_product p3 p0 p1))
      \<or> (flt (cross_product p0 p1 p2) (Finite 0) \<and> flt (cross_product p1 p2 p3) (Finite 0)
         \<and> flt (cross_product p2 p3 p0) (Finite 0) \<and> flt (cross_product p3 p0 p1) (Finite 0)))"
  by (simp add: is_convex_quadrilateral_def Let_def)



subsection \<open>Pixels of an image of at most 4096 columns and rows\<close>

lemma fsub_int:
  "\<bar>a - b\<bar> \<le> 2 ^ 24 \<Longrightarrow>
     fsub (Finite (of_int a)) (Finite (of_int b)) = Finite (of_int (a - b))"
  using round32_of_int [of "a - b"] by (simp add: fsub_def)








lemma round32_even_int:
  "\<bar>k\<bar> < 2 ^ 24 \<Longrightarrow> round32 (of_int (2 * k)) = Finite (of_int (2 * k))"
  using round32_exact [of k 1] by (simp add: mult.commute)






section \<open>Ordering the corners\<close>

lemma min_element_4:
  "min_element [a, b, c, d] =
     (let s1 = (if flt b a then 1 else 0);
          s2 = (if flt c ([a, b, c, d] ! s1) then 2 else s1)
      in if flt d ([a, b, c, d] ! s2) then 3 else s2)"
  by (simp add: min_element_def Let_def)

lemma max_element_4:
  "max_element [a, b, c, d] =
     (let s1 = (if flt a b then 1 else 0);
          s2 = (if flt ([a, b, c, d] ! s1) c then 2 else s1)
      in if flt ([a, b, c, d] ! s2) d then 3 else s2)"
  by (simp add: max_element_def Let_def)

text \<open>
  When the binary32 sums and differences have their strict extrema at the positions 0, 1,
  2 and 3, the four searches return these positions.
\<close>

lemma order_points_fixed:
  assumes "flt (fadd (pt_x p0) (pt_y p0)) (fadd (pt_x p1) (pt_y p1))"
    "flt (fadd (pt_x p0) (pt_y p0)) (fadd (pt_x p2) (pt_y p2))"
    "flt (fadd (pt_x p0) (pt_y p0)) (fadd (pt_x p3) (pt_y p3))"
    and "flt (fsub (pt_y p1) (pt_x p1)) (fsub (pt_y p0) (pt_x p0))"
    "flt (fsub (pt_y p1) (pt_x p1)) (fsub (pt_y p2) (pt_x p2))"
    "flt (fsub (pt_y p1) (pt_x p1)) (fsub (pt_y p3) (pt_x p3))"
    and "flt (fadd (pt_x p0) (pt_y p0)) (fadd (pt_x p2) (pt_y p2))"
    "flt (fadd (pt_x p1) (pt_y p1)) (fadd (pt_x p2) (pt_y p2))"
    "flt (fadd (pt_x p3) (pt_y p3)) (fadd (pt_x p2) (pt_y p2))"
    and "flt (fsub (pt_y p0) (pt_x p0)) (fsub (pt_y p3) (pt_x p3))"
    "flt (fsub (pt_y p1) (pt_x p1)) (fsub (pt_y p3) (pt_x p3))"
    "flt (fsub (pt_y p2) (pt_x p2)) (fsub (pt_y p3) (pt_x p3))"
  shows "order_points_clockwise [p0, p1, p2, p3] = [p0, p1, p2, p3]"
proof -
  note n = assms [THEN flt_asym]
  have "min_element (map (\<lambda>p. fadd (pt_x p) (pt_y p)) [p0, p1, p2, p3]) = 0"
    using n by (simp add: min_element_4)
  moreover have "min_element (map (\<lambda>p. fsub (pt_y p) (pt_x p)) [p0, p1, p2, p3]) = 1"
    using assms n by (simp add: min_element_4)
  moreover have "max_element (map (\<lambda>p. fadd (pt_x p) (pt_y p)) [p0, p1, p2, p3]) = 2"
    using assms n by (simp add: max_element_4)
  moreover have "max_element (map (\<lambda>p. fsub (pt_y p) (pt_x p)) [p0, p1, p2, p3]) = 3"
    using assms n by (simp add: max_element_4)
  ultimately show ?thesis
    by (simp add: order_points_clockwise_def Let_def)
qed

text \<open>
  On pixels with coordinates up to \<open>2 ^ 23\<close> the sums and differences are exact in
  binary32.
\<close>

lemma fadd_int:
  "\<bar>a + b\<bar> \<le> 2 ^ 24 \<Longrightarrow>
     fadd (Finite (of_int a)) (Finite (of_int b)) = Finite (of_int (a + b))"
  using round32_of_int [of "a + b"] by simp

lemma sum_diff_pixel:
  assumes "pixel_within (2 ^ 23) p"
  shows "fadd (pt_x (to_Point2f p)) (pt_y (to_Point2f p)) = Finite (of_int (ipt_x p + ipt_y p))"
    and "fsub (pt_y (to_Point2f p)) (pt_x (to_Point2f p)) = Finite (of_int (ipt_y p - ipt_x p))"
proof -
  have c: "\<bar>ipt_x p\<bar> \<le> 2 ^ 24" "\<bar>ipt_y p\<bar> \<le> 2 ^ 24"
    using assms unfolding pixel_within_def by simp_all
  have s: "\<bar>ipt_x p + ipt_y p\<bar> \<le> 2 ^ 24" "\<bar>ipt_y p - ipt_x p\<bar> \<le> 2 ^ 24"
    using assms unfolding pixel_within_def by (simp_all add: abs_le_iff)
  show "fadd (pt_x (to_Point2f p)) (pt_y (to_Point2f p)) = Finite (of_int (ipt_x p + ipt_y p))"
    unfolding to_Point2f_def Point2f.sel float_of_int_exact [OF c(1)] float_of_int_exact [OF c(2)]
    using s(1) by (rule fadd_int)
  show "fsub (pt_y (to_Point2f p)) (pt_x (to_Point2f p)) = Finite (of_int (ipt_y p - ipt_x p))"
    unfolding to_Point2f_def Point2f.sel float_of_int_exact [OF c(1)] float_of_int_exact [OF c(2)]
    using s(2) by (rule fsub_int)
qed

lemma order_pixels_fixed:
  assumes "pixel_within (2 ^ 23) q0" "pixel_within (2 ^ 23) q1" "pixel_within (2 ^ 23) q2"
    "pixel_within (2 ^ 23) q3"
    and "\<forall>q \<in> {q1, q2, q3}. ipt_x q0 + ipt_y q0 < ipt_x q + ipt_y q"
    and "\<forall>q \<in> {q0, q2, q3}. ipt_y q1 - ipt_x q1 < ipt_y q - ipt_x q"
    and "\<forall>q \<in> {q0, q1, q3}. ipt_x q + ipt_y q < ipt_x q2 + ipt_y q2"
    and "\<forall>q \<in> {q0, q1, q2}. ipt_y q - ipt_x q < ipt_y q3 - ipt_x q3"
  shows "order_points_clockwise (map to_Point2f [q0, q1, q2, q3]) = map to_Point2f [q0, q1, q2, q3]"
  using assms(5-8)
  by (simp add: order_points_fixed sum_diff_pixel [OF assms(1)] sum_diff_pixel [OF assms(2)]
      sum_diff_pixel [OF assms(3)] sum_diff_pixel [OF assms(4)])

lemma round32_16777217: "round32 16777217 = Finite 16777216"
  by (rule round32_at [where e = 1 and s = 2 and m = 8388608, THEN trans])
    (simp_all add: round_even_def Let_def)

lemma round32_16777219: "round32 16777219 = Finite 16777220"
  by (rule round32_at [where e = 1 and s = 2 and m = 8388610, THEN trans])
    (simp_all add: round_even_def Let_def)

lemma round32_16777319: "round32 16777319 = Finite 16777320"
  by (rule round32_at [where e = 1 and s = 2 and m = 8388660, THEN trans])
    (simp_all add: round_even_def Let_def)

lemmas far_eval =
  round32_even_int [of 8388609, simplified] round32_even_int [of 8388658, simplified]
  round32_16777217 round32_16777219 round32_16777319

text \<open>
  C5, as stated of exact sums and differences, fails. In the quadrilateral
  \<open>(16777216, 0), (16777218, 1), (16777218, 101), (16777216, 100)\<close> the first point
  uniquely minimises \<open>x + y\<close>, the second uniquely minimises \<open>y - x\<close>, the third uniquely
  maximises \<open>x + y\<close> and the fourth uniquely maximises \<open>y - x\<close>; all eight coordinates are
  exact in binary32. The difference \<open>1 - 16777218 = -16777217\<close> of the second point
  rounds to -16777216, the difference of the first point, so the search for the smallest
  difference returns the first point: the function returns the first point twice and loses
  the second.
\<close>

theorem order_points_collision_counterexample:
  "map (\<lambda>p. ipt_x p + ipt_y p) far_quad = [16777216, 16777219, 16777319, 16777316]
   \<and> map (\<lambda>p. ipt_y p - ipt_x p) far_quad = [- 16777216, - 16777217, - 16777117, - 16777116]
   \<and> map to_Point2f far_quad
       = [Point2f (Finite 16777216) (Finite 0), Point2f (Finite 16777218) (Finite 1),
          Point2f (Finite 16777218) (Finite 101), Point2f (Finite 16777216) (Finite 100)]
   \<and> map (\<lambda>p. fsub (pt_y p) (pt_x p)) (map to_Point2f far_quad)
       = [Finite (- 16777216), Finite (- 16777216), Finite (- 16777117), Finite (- 16777116)]
   \<and> order_points_clockwise (map to_Point2f far_quad)
       = [Point2f (Finite 16777216) (Finite 0), Point2f (Finite 16777216) (Finite 0),
          Point2f (Finite 16777218) (Finite 101), Point2f (Finite 16777216) (Finite 100)]
   \<and> order_points_clockwise (map to_Point2f far_quad) \<noteq> map to_Point2f far_quad"
  by (simp add: far_quad_def to_Point2f_def order_points_clockwise_def min_element_4
      max_element_4 Let_def float_eval far_eval)

text \<open>
  C5, amended. The corner ordering is idempotent on input that is ordered as the program
  sees it: for a sequence of four points whose first has the strictly smallest binary32 sum
  \<open>x + y\<close>, whose second has the strictly smallest binary32 difference \<open>y - x\<close>, whose
  third has the strictly largest binary32 sum and whose fourth has the strictly largest
  binary32 difference, \<open>order_points_clockwise\<close> returns the same sequence. For pixels
  with coordinates between 0 and \<open>2 ^ 23\<close> the sums and differences are exact, and the
  claim holds as stated: unique extrema of the exact \<open>x + y\<close> and \<open>y - x\<close> suffice.
\<close>

theorem order_points_idempotent:
  assumes "pts = [top_left, top_right, bottom_right, bottom_left]"
  shows "((\<forall>p \<in> {top_right, bottom_right, bottom_left}.
             flt (fadd (pt_x top_left) (pt_y top_left)) (fadd (pt_x p) (pt_y p)))
          \<and> (\<forall>p \<in> {top_left, bottom_right, bottom_left}.
             flt (fsub (pt_y top_right) (pt_x top_right)) (fsub (pt_y p) (pt_x p)))
          \<and> (\<forall>p \<in> {top_left, top_right, bottom_left}.
             flt (fadd (pt_x p) (pt_y p)) (fadd (pt_x bottom_right) (pt_y bottom_right)))
          \<and> (\<forall>p \<in> {top_left, top_right, bottom_right}.
             flt (fsub (pt_y p) (pt_x p)) (fsub (pt_y bottom_left) (pt_x bottom_left)))
          \<longrightarrow> order_points_clockwise pts = pts)
       \<and> (\<forall>q0 q1 q2 q3.
            pts = map to_Point2f [q0, q1, q2, q3]
            \<and> (\<forall>q \<in> {q0, q1, q2, q3}. pixel_within (2 ^ 23) q)
            \<and> (\<forall>q \<in> {q1, q2, q3}. ipt_x q0 + ipt_y q0 < ipt_x q + ipt_y q)
            \<and> (\<forall>q \<in> {q0, q2, q3}. ipt_y q1 - ipt_x q1 < ipt_y q - ipt_x q)
            \<and> (\<forall>q \<in> {q0, q1, q3}. ipt_x q + ipt_y q < ipt_x q2 + ipt_y q2)
            \<and> (\<forall>q \<in> {q0, q1, q2}. ipt_y q - ipt_x q < ipt_y q3 - ipt_x q3)
          \<longrightarrow> order_points_clockwise pts = pts)"
proof (intro conjI impI allI)
  assume "(\<forall>p \<in> {top_right, bottom_right, bottom_left}.
             flt (fadd (pt_x top_left) (pt_y top_left)) (fadd (pt_x p) (pt_y p)))
          \<and> (\<forall>p \<in> {top_left, bottom_right, bottom_left}.
             flt (fsub (pt_y top_right) (pt_x top_right)) (fsub (pt_y p) (pt_x p)))
          \<and> (\<forall>p \<in> {top_left, top_right, bottom_left}.
             flt (fadd (pt_x p) (pt_y p)) (fadd (pt_x bottom_right) (pt_y bottom_right)))
          \<and> (\<forall>p \<in> {top_left, top_right, bottom_right}.
             flt (fsub (pt_y p) (pt_x p)) (fsub (pt_y bottom_left) (pt_x bottom_left)))"
  then show "order_points_clockwise pts = pts"
    unfolding assms by (intro order_points_fixed) simp_all
next
  fix q0 q1 q2 q3
  assume a: "pts = map to_Point2f [q0, q1, q2, q3]
            \<and> (\<forall>q \<in> {q0, q1, q2, q3}. pixel_within (2 ^ 23) q)
            \<and> (\<forall>q \<in> {q1, q2, q3}. ipt_x q0 + ipt_y q0 < ipt_x q + ipt_y q)
            \<and> (\<forall>q \<in> {q0, q2, q3}. ipt_y q1 - ipt_x q1 < ipt_y q - ipt_x q)
            \<and> (\<forall>q \<in> {q0, q1, q3}. ipt_x q + ipt_y q < ipt_x q2 + ipt_y q2)
            \<and> (\<forall>q \<in> {q0, q1, q2}. ipt_y q - ipt_x q < ipt_y q3 - ipt_x q3)"
  then have "order_points_clockwise (map to_Point2f [q0, q1, q2, q3])
             = map to_Point2f [q0, q1, q2, q3]"
    by (intro order_pixels_fixed) simp_all
  with a show "order_points_clockwise pts = pts"
    by simp
qed

theorem order_points_idempotent_witness:
  "order_points_clockwise (map to_Point2f [Point 0 0, Point 100 0, Point 100 50, Point 0 50])
     = map to_Point2f [Point 0 0, Point 100 0, Point 100 50, Point 0 50]
   \<and> map to_Point2f [Point 0 0, Point 100 0, Point 100 50, Point 0 50]
     = [Point2f (Finite 0) (Finite 0), Point2f (Finite 100) (Finite 0),
        Point2f (Finite 100) (Finite 50), Point2f (Finite 0) (Finite 50)]
   \<and> map (\<lambda>p. fadd (pt_x p) (pt_y p))
        (map to_Point2f [Point 0 0, Point 100 0, Point 100 50, Point 0 50])
     = [Finite 0, Finite 100, Finite 150, Finite 50]
   \<and> map (\<lambda>p. fsub (pt_y p) (pt_x p))
        (map to_Point2f [Point 0 0, Point 100 0, Point 100 50, Point 0 50])
     = [Finite 0, Finite (- 100), Finite (- 50), Finite 50]
   \<and> pixel_within (2 ^ 23) (Point 100 50)"
  using order_points_idempotent
    [of "map to_Point2f [Point 0 0, Point 100 0, Point 100 50, Point 0 50]"
      "Point2f (Finite 0) (Finite 0)" "Point2f (Finite 100) (Finite 0)"
      "Point2f (Finite 100) (Finite 50)" "Point2f (Finite 0) (Finite 50)"]
  by (simp add: to_Point2f_def pixel_within_def float_eval)

section \<open>The default configuration\<close>

lemma config_in_force_default:
  "config_in_force None = config_in_force (Some hg_default_paper_config)"
  by (simp add: config_in_force_def hg_default_paper_config_def)

lemma no_pose_without_focal_length:
  assumes "\<not> flt (Finite 0) (focal_length cfg)"
  shows "pd_rvec (paper_result cv cfg gray best_quad best_area result) = pd_rvec result
       \<and> pd_tvec (paper_result cv cfg gray best_quad best_area result) = pd_tvec result"
  using assms by (simp add: paper_result_def Let_def)

text \<open>The thresholds of a 400x400 image under the default configuration.\<close>

lemma min_area_400: "round32 (8388608125 / 1048576) = Finite 8000"
  by (rule round32_at [where e = "- 11" and s = "1 / 2048" and m = 16384000, THEN trans])
    (simp_all add: power_int_minus round_even_def Let_def)

lemma max_area_400: "round32 (9961471875 / 65536) = Finite 152000"
  by (rule round32_at [where e = "- 6" and s = "1 / 64" and m = 9728000, THEN trans])
    (simp_all add: power_int_minus round_even_def Let_def)

lemma min_edge_400: "round32 (335544325 / 16777216) = Finite 20"
  by (rule round32_at [where e = "- 19" and s = "1 / 524288" and m = 10485760, THEN trans])
    (simp_all add: power_int_minus round_even_def Let_def)

lemmas paper_eval =
  detect_paper_internal_def config_in_force_def hg_default_paper_config_def contours_of_def
  best_quad_of_def candidates_of_def find_best_quad_def consider_contour_def candidate_def
  order_points_clockwise_def min_element_4 max_element_4 is_convex_quadrilateral_4
  cross_product_def edge_length_def paper_result_def paper_result0_def quad_width_def
  quad_height_def paper_size_def canonical_corners_def camera_matrix_def object_points_def
  cv_example_def gray_image_def identity3_def mat3_def no_matrix_def empty_Mat_def Let_def
  a4_contour_def square_contour_def wide_tolerance_config_def to_Point2f_def map_filter_simps
  float_eval round32_70_99 min_area_400 max_area_400 min_edge_400
  round32_dyadic [of 397 1, simplified] round32_dyadic [of 3 2, simplified]
  sqrt_10000 sqrt_44100 sqrt_88209 upt_0_9 upt_0_4

text \<open>
  C7. \<open>hg_default_paper_config\<close> returns the documented A4 defaults: Canny thresholds 50
  and 150, blur kernel size 5, area ratio window 0.05 to 0.95, expected aspect ratio
  210/297, aspect tolerance 0.3, paper size 210 x 297 mm, focal length 0, so that no pose
  is estimated (the rotation and translation vectors stay zero), and principal point (0, 0).
  The fractional values are the \<open>float\<close> literals \<open>0.05f\<close>, \<open>0.95f\<close> and \<open>0.3f\<close>
  and the \<open>float\<close> quotient \<open>210.0f / 297.0f\<close>.
  Paper detection with a null configuration pointer returns what it returns with this
  configuration, in \<open>detect_paper_internal\<close> and in both entry points.
\<close>

theorem default_paper_config:
  "canny_threshold1 hg_default_paper_config = 50
   \<and> canny_threshold2 hg_default_paper_config = 150
   \<and> blur_kernel_size hg_default_paper_config = 5
   \<and> min_area_ratio hg_default_paper_config = f32 0.05
   \<and> max_area_ratio hg_default_paper_config = f32 0.95
   \<and> expected_aspect_ratio hg_default_paper_config = fdiv (Finite 210) (Finite 297)
   \<and> aspect_ratio_tolerance hg_default_paper_config = f32 0.3
   \<and> paper_width_mm hg_default_paper_config = Finite 210
   \<and> paper_height_mm hg_default_paper_config = Finite 297
   \<and> focal_length hg_default_paper_config = Finite 0
   \<and> cx hg_default_paper_config = Finite 0
   \<and> cy hg_default_paper_config = Finite 0
   \<and> pd_rvec (detect_paper_internal cv gray (Some hg_default_paper_config)) = [0, 0, 0]
   \<and> pd_tvec (detect_paper_internal cv gray (Some hg_default_paper_config)) = [0, 0, 0]
   \<and> detect_paper_internal cv gray None
       = detect_paper_internal cv gray (Some hg_default_paper_config)
   \<and> hg_detect_paper cv image_data image_width image_height image_channels None
       = hg_detect_paper cv image_data image_width image_height image_channels
           (Some hg_default_paper_config)
   \<and> hg_detect_paper_encoded cv image_bytes image_size None
       = hg_detect_paper_encoded cv image_bytes image_size (Some hg_default_paper_config)"
proof -
  have eq: "\<And>g. detect_paper_internal cv g None
       = detect_paper_internal cv g (Some hg_default_paper_config)"
    by (simp add: detect_paper_internal_def config_in_force_default)
  have f: "\<not> flt (Finite 0) (focal_length (config_in_force (Some hg_default_paper_config)))"
    by (simp add: config_in_force_def hg_default_paper_config_def)
  have pose: "pd_rvec (detect_paper_internal cv gray (Some hg_default_paper_config)) = [0, 0, 0]
   \<and> pd_tvec (detect_paper_internal cv gray (Some hg_default_paper_config)) = [0, 0, 0]"
    using no_pose_without_focal_length [OF f]
    by (simp add: detect_paper_internal_def Let_def paper_result0_def split: prod.splits)
  have fields: "canny_threshold1 hg_default_paper_config = 50
   \<and> canny_threshold2 hg_default_paper_config = 150
   \<and> blur_kernel_size hg_default_paper_config = 5
   \<and> min_area_ratio hg_default_paper_config = f32 0.05
   \<and> max_area_ratio hg_default_paper_config = f32 0.95
   \<and> expected_aspect_ratio hg_default_paper_config = fdiv (Finite 210) (Finite 297)
   \<and> aspect_ratio_tolerance hg_default_paper_config = f32 0.3
   \<and> paper_width_mm hg_default_paper_config = Finite 210
   \<and> paper_height_mm hg_default_paper_config = Finite 297
   \<and> focal_length hg_default_paper_config = Finite 0
   \<and> cx hg_default_paper_config = Finite 0
   \<and> cy hg_default_paper_config = Finite 0"
    by (simp add: hg_default_paper_config_def)
  show ?thesis
    using fields pose
    by (simp add: hg_detect_paper_def hg_detect_paper_encoded_def eq Let_def)
qed

theorem default_paper_config_witness:
  "detect_paper_internal (cv_example 0 identity3 [] a4_contour 62370) (gray_image 400 400) None
     = \<lparr>pd_corners = [Finite 100, Finite 50, Finite 310, Finite 50, Finite 310, Finite 347,
                      Finite 100, Finite 347],
        pd_center_x = Finite 205, pd_center_y = Finite (397 / 2),
        pd_homography = [1, 0, 0, 0, 1, 0, 0, 0, 1],
        pd_rvec = [0, 0, 0], pd_tvec = [0, 0, 0], pd_area = Finite 62370,
        pd_perimeter = Finite 1014, pd_aspect_ratio = Finite (5931339 / 8388608),
        pd_status = 1\<rparr>
   \<and> detect_paper_internal (cv_example 0 identity3 [] a4_contour 62370) (gray_image 400 400)
       (Some hg_default_paper_config)
     = \<lparr>pd_corners = [Finite 100, Finite 50, Finite 310, Finite 50, Finite 310, Finite 347,
                      Finite 100, Finite 347],
        pd_center_x = Finite 205, pd_center_y = Finite (397 / 2),
        pd_homography = [1, 0, 0, 0, 1, 0, 0, 0, 1],
        pd_rvec = [0, 0, 0], pd_tvec = [0, 0, 0], pd_area = Finite 62370,
        pd_perimeter = Finite 1014, pd_aspect_ratio = Finite (5931339 / 8388608),
        pd_status = 1\<rparr>"
  using default_paper_config
    [of "cv_example 0 identity3 [] a4_contour 62370" "gray_image 400 400"]
  by (simp add: paper_eval)

section \<open>Selecting the best candidate\<close>

lemma length_order_points_clockwise:
  "length pts = 4 \<Longrightarrow> length (order_points_clockwise pts) = 4"
  by (simp add: order_points_clockwise_def Let_def)

lemma candidate_Some:
  assumes "candidate cv cfg min_area max_area min_edge_length contour = Some (quad, score, area)"
  shows "length (approxPolyDP cv contour
                   (double_times 0.035 (float_of_double (arcLength cv contour True))) True) = 4
       \<and> quad = order_points_clockwise
                  (map to_Point2f
                     (approxPolyDP cv contour
                        (double_times 0.035 (float_of_double (arcLength cv contour True))) True))
       \<and> area = float_of_double (contourArea cv contour)"
proof -
  define approx where "approx = approxPolyDP cv contour
                   (double_times 0.035 (float_of_double (arcLength cv contour True))) True"
  define quad' where "quad' = order_points_clockwise (map to_Point2f approx)"
  have "length approx = 4 \<and> quad = quad' \<and> area = float_of_double (contourArea cv contour)"
    using assms
    unfolding candidate_def Let_def quad'_def [symmetric] approx_def [symmetric]
    by (simp split: if_splits)
  then show ?thesis
    by (simp add: quad'_def approx_def)
qed

lemma candidate_length:
  assumes "candidate cv cfg min_area max_area min_edge_length contour = Some (quad, score, area)"
  shows "length quad = 4"
  using candidate_Some [OF assms] by (simp add: length_order_points_clockwise)

lemma in_set_map_filter:
  "y \<in> set (List.map_filter f xs) \<longleftrightarrow> (\<exists>x \<in> set xs. f x = Some y)"
  by (induction xs) (auto simp add: map_filter_simps split: option.splits)

lemma consider_contour_cases:
  "consider_contour cv cfg min_area max_area min_edge_length (qb, sb, ab) contour =
     (case candidate cv cfg min_area max_area min_edge_length contour of
        None \<Rightarrow> (qb, sb, ab)
      | Some c \<Rightarrow> if flt sb (fst (snd c)) then c else (qb, sb, ab))"
  by (simp add: consider_contour_def split: option.splits prod.splits)

text \<open>
  The loop keeps its initial state or ends on a candidate that scores strictly above the
  initial best score; no candidate scores strictly above the final state.
\<close>

lemma fold_consider:
  "(foldl (consider_contour cv cfg min_area max_area min_edge_length) (qb, sb, ab) contours
      = (qb, sb, ab)
    \<or> (foldl (consider_contour cv cfg min_area max_area min_edge_length) (qb, sb, ab) contours
          \<in> set (List.map_filter (candidate cv cfg min_area max_area min_edge_length) contours)
       \<and> flt sb (fst (snd (foldl (consider_contour cv cfg min_area max_area min_edge_length)
                               (qb, sb, ab) contours)))))
   \<and> (\<forall>c \<in> set (List.map_filter (candidate cv cfg min_area max_area min_edge_length) contours).
         \<not> flt (fst (snd (foldl (consider_contour cv cfg min_area max_area min_edge_length)
                             (qb, sb, ab) contours)))
                (fst (snd c)))
   \<and> (List.map_filter (candidate cv cfg min_area max_area min_edge_length) contours = []
        \<longrightarrow> foldl (consider_contour cv cfg min_area max_area min_edge_length) (qb, sb, ab) contours
            = (qb, sb, ab))"
proof (induction contours arbitrary: qb sb ab)
  case Nil
  show ?case by (simp add: map_filter_simps)
next
  case (Cons contour contours)
  let ?F = "consider_contour cv cfg min_area max_area min_edge_length"
  let ?cands = "List.map_filter (candidate cv cfg min_area max_area min_edge_length)"
  show ?case
  proof (cases "candidate cv cfg min_area max_area min_edge_length contour")
    case None
    with Cons.IH [where qb = qb and sb = sb and ab = ab] show ?thesis
      by (simp add: consider_contour_cases map_filter_simps)
  next
    case (Some c)
    obtain quad score area where c: "c = (quad, score, area)"
      by (cases c) auto
    have cands: "?cands (contour # contours) = c # ?cands contours"
      using Some by (simp add: map_filter_simps)
    show ?thesis
    proof (cases "flt sb score")
      case True
      define r where "r = foldl ?F (quad, score, area) contours"
      have step: "foldl ?F (qb, sb, ab) (contour # contours) = r"
        using Some c True by (simp add: consider_contour_cases r_def)
      from Cons.IH [where qb = quad and sb = score and ab = area]
      have ih: "r = (quad, score, area) \<or> (r \<in> set (?cands contours) \<and> flt score (fst (snd r)))"
        "\<forall>c' \<in> set (?cands contours). \<not> flt (fst (snd r)) (fst (snd c'))"
        unfolding r_def by blast+
      have a: "r \<in> set (c # ?cands contours) \<and> flt sb (fst (snd r))"
        using ih(1) True c flt_trans [of sb score "fst (snd r)"] by auto
      have b: "\<not> flt (fst (snd r)) score"
        using ih(1) flt_asym [of score "fst (snd r)"] by auto
      show ?thesis
        unfolding step cands using a b ih(2) c by simp
    next
      case False
      define r where "r = foldl ?F (qb, sb, ab) contours"
      have step: "foldl ?F (qb, sb, ab) (contour # contours) = r"
        using Some c False by (simp add: consider_contour_cases r_def)
      from Cons.IH [where qb = qb and sb = sb and ab = ab]
      have ih: "r = (qb, sb, ab) \<or> (r \<in> set (?cands contours) \<and> flt sb (fst (snd r)))"
        "\<forall>c' \<in> set (?cands contours). \<not> flt (fst (snd r)) (fst (snd c'))"
        unfolding r_def by blast+
      have b: "\<not> flt (fst (snd r)) score"
        using ih(1) False flt_trans [of sb "fst (snd r)" score] by auto
      show ?thesis
        unfolding step cands using ih b c by auto
    qed
  qed
qed

lemma best_quad_of_fold:
  "best_quad_of cv cfg gray =
     foldl (consider_contour cv cfg
              (fmul (float_of_int (cols gray * rows gray)) (min_area_ratio cfg))
              (fmul (float_of_int (cols gray * rows gray)) (max_area_ratio cfg))
              (fmul (float_of_int (min (cols gray) (rows gray))) (f32 0.05)))
       ([], Finite (- 1), Finite 0) (contours_of cv cfg gray)"
  by (simp add: best_quad_of_def find_best_quad_def Let_def)

lemma candidates_of_filter:
  "candidates_of cv cfg gray =
     List.map_filter (candidate cv cfg
              (fmul (float_of_int (cols gray * rows gray)) (min_area_ratio cfg))
              (fmul (float_of_int (cols gray * rows gray)) (max_area_ratio cfg))
              (fmul (float_of_int (min (cols gray) (rows gray))) (f32 0.05)))
       (contours_of cv cfg gray)"
  by (simp add: candidates_of_def Let_def)

lemma best_quad_of_cases:
  assumes "best_quad_of cv cfg gray = (best_quad, best_score, best_area)"
  shows "(best_quad, best_score, best_area) = ([], Finite (- 1), Finite 0)
       \<or> ((best_quad, best_score, best_area) \<in> set (candidates_of cv cfg gray)
          \<and> flt (Finite (- 1)) best_score)"
  using assms
    fold_consider [where sb = "Finite (- 1)" and qb = "[]" and ab = "Finite 0" and cv = cv
      and cfg = cfg and contours = "contours_of cv cfg gray"
      and min_area = "fmul (float_of_int (cols gray * rows gray)) (min_area_ratio cfg)"
      and max_area = "fmul (float_of_int (cols gray * rows gray)) (max_area_ratio cfg)"
      and min_edge_length = "fmul (float_of_int (min (cols gray) (rows gray))) (f32 0.05)"]
  unfolding best_quad_of_fold candidates_of_filter
  by auto

lemma best_quad_of_upper:
  assumes "best_quad_of cv cfg gray = (best_quad, best_score, best_area)"
    and "c \<in> set (candidates_of cv cfg gray)"
  shows "\<not> flt best_score (fst (snd c))"
  using assms
    fold_consider [where sb = "Finite (- 1)" and qb = "[]" and ab = "Finite 0" and cv = cv
      and cfg = cfg and contours = "contours_of cv cfg gray"
      and min_area = "fmul (float_of_int (cols gray * rows gray)) (min_area_ratio cfg)"
      and max_area = "fmul (float_of_int (cols gray * rows gray)) (max_area_ratio cfg)"
      and min_edge_length = "fmul (float_of_int (min (cols gray) (rows gray))) (f32 0.05)"]
  unfolding best_quad_of_fold candidates_of_filter
  by auto

lemma candidates_length:
  assumes "(quad, score, area) \<in> set (candidates_of cv cfg gray)"
  shows "length quad = 4"
  using assms candidate_length
  unfolding candidates_of_def Let_def in_set_map_filter by blast

lemma best_quad_length:
  assumes "best_quad_of cv cfg gray = (best_quad, best_score, best_area)" "best_quad \<noteq> []"
  shows "length best_quad = 4"
  using best_quad_of_cases [OF assms(1)] assms(2) candidates_length by auto

lemma best_quad_of_no_contours:
  assumes "contours_of cv cfg gray = []"
  shows "best_quad_of cv cfg gray = ([], Finite (- 1), Finite 0)"
  using assms by (simp add: best_quad_of_def find_best_quad_def Let_def)

lemma detect_paper_internal_found:
  assumes "best_quad_of cv (config_in_force config) gray = (best_quad, best_score, best_area)"
    and "best_quad \<noteq> []"
  shows "detect_paper_internal cv gray config
         = paper_result cv (config_in_force config) gray best_quad best_area paper_result0"
proof -
  have "contours_of cv (config_in_force config) gray \<noteq> []"
    using assms best_quad_of_no_contours by fastforce
  with assms show ?thesis
    by (simp add: detect_paper_internal_def Let_def)
qed

lemma paper_result_status:
  "pd_status (paper_result cv cfg gray best_quad best_area result) = 1"
  by (simp add: paper_result_def Let_def)

lemma paper_result_homography:
  "pd_homography (paper_result cv cfg gray best_quad best_area result) =
     (let H = findHomography cv (canonical_corners cfg best_quad) best_quad
      in if \<not> empty_Mat H \<and> rows H = 3 \<and> cols H = 3
         then map (\<lambda>k. elem H (k div 3) (k mod 3)) [0..<9]
         else pd_homography result)"
  by (auto simp add: paper_result_def Let_def split: prod.splits)

lemma paper_result_pose:
  assumes "\<not> flt (Finite 0) (focal_length cfg)
     \<or> \<not> fst (solvePnP cv (object_points cfg best_quad) best_quad (camera_matrix cfg gray) [0, 0, 0, 0])"
  shows "pd_rvec (paper_result cv cfg gray best_quad best_area result) = pd_rvec result
       \<and> pd_tvec (paper_result cv cfg gray best_quad best_area result) = pd_tvec result"
  using assms by (auto simp add: paper_result_def Let_def split: prod.splits)

lemma paper_result_metrics:
  assumes "best_quad = [p0, p1, p2, p3]"
  shows "pd_corners (paper_result cv cfg gray best_quad best_area result)
           = [pt_x p0, pt_y p0, pt_x p1, pt_y p1, pt_x p2, pt_y p2, pt_x p3, pt_y p3]"
    and "pd_center_x (paper_result cv cfg gray best_quad best_area result)
           = fdiv (fadd (fadd (fadd (fadd (Finite 0) (pt_x p0)) (pt_x p1)) (pt_x p2)) (pt_x p3))
               (Finite 4)"
    and "pd_center_y (paper_result cv cfg gray best_quad best_area result)
           = fdiv (fadd (fadd (fadd (fadd (Finite 0) (pt_y p0)) (pt_y p1)) (pt_y p2)) (pt_y p3))
               (Finite 4)"
    and "pd_area (paper_result cv cfg gray best_quad best_area result) = best_area"
    and "pd_perimeter (paper_result cv cfg gray best_quad best_area result)
           = fadd (fadd (fadd (fadd (Finite 0) (edge_length p0 p1)) (edge_length p1 p2))
                    (edge_length p2 p3)) (edge_length p3 p0)"
    and "pd_aspect_ratio (paper_result cv cfg gray best_quad best_area result)
           = fdiv (fmin (quad_width best_quad) (quad_height best_quad))
                  (fmax (quad_width best_quad) (quad_height best_quad))"
  using assms by (simp_all add: paper_result_def Let_def upt_0_4 split: prod.splits)

text \<open>
  Where some candidate scores above the initial best score -1, the detector reports a
  candidate that no candidate outscores; where no candidate survives, it reports status 0.
\<close>

lemma best_candidate_selected:
  assumes "cfg = config_in_force config"
    and "r = detect_paper_internal cv gray config"
  shows "(candidates_of cv cfg gray = [] \<longrightarrow> pd_status r = 0)
       \<and> ((\<exists>c \<in> set (candidates_of cv cfg gray). flt (Finite (- 1)) (fst (snd c))) \<longrightarrow>
            (\<exists>quad score area.
               (quad, score, area) \<in> set (candidates_of cv cfg gray)
             \<and> (\<forall>c \<in> set (candidates_of cv cfg gray). \<not> flt score (fst (snd c)))
             \<and> pd_status r = 1
             \<and> pd_corners r = concat (map (\<lambda>p. [pt_x p, pt_y p]) quad)
             \<and> pd_area r = area))"
proof (intro conjI impI)
  obtain bq bs ba where b: "best_quad_of cv cfg gray = (bq, bs, ba)"
    by (cases "best_quad_of cv cfg gray") auto
  note cases = best_quad_of_cases [OF b]
  {
    assume "candidates_of cv cfg gray = []"
    with cases have "bq = []" by simp
    with b show "pd_status r = 0"
      using assms by (simp add: detect_paper_internal_def Let_def paper_result0_def)
  }
  {
    assume ex: "\<exists>c \<in> set (candidates_of cv cfg gray). flt (Finite (- 1)) (fst (snd c))"
    then obtain c where c: "c \<in> set (candidates_of cv cfg gray)" "flt (Finite (- 1)) (fst (snd c))"
      by blast
    from best_quad_of_upper [OF b c(1)] c(2) have "bs \<noteq> Finite (- 1)"
      by auto
    with cases have mem: "(bq, bs, ba) \<in> set (candidates_of cv cfg gray)"
      by auto
    then have len: "length bq = 4"
      by (rule candidates_length)
    then have ne: "bq \<noteq> []"
      by auto
    from b ne assms have r: "r = paper_result cv cfg gray bq ba paper_result0"
      using detect_paper_internal_found by simp
    from len obtain p0 p1 p2 p3 where q: "bq = [p0, p1, p2, p3]"
      by (rule length4E)
    have "pd_status r = 1 \<and> pd_corners r = concat (map (\<lambda>p. [pt_x p, pt_y p]) bq) \<and> pd_area r = ba"
      using paper_result_metrics [OF q, of cv cfg gray ba paper_result0]
      by (simp add: r paper_result_status q)
    with mem best_quad_of_upper [OF b]
    show "\<exists>quad score area.
               (quad, score, area) \<in> set (candidates_of cv cfg gray)
             \<and> (\<forall>c \<in> set (candidates_of cv cfg gray). \<not> flt score (fst (snd c)))
             \<and> pd_status r = 1
             \<and> pd_corners r = concat (map (\<lambda>p. [pt_x p, pt_y p]) quad)
             \<and> pd_area r = area"
      by blast
  }
qed

text \<open>
  C8 fails on the code. With an expected aspect ratio of 0.25 and a tolerance of 3, a square
  of area 10000 in a 400x400 image survives every filter (its relative aspect error is 3),
  its aspect score is -2 and its score -20000; every value of the computation is exact in
  binary32. The loop compares scores with the initial best score -1, so this only candidate
  is never selected and the result has status 0.
\<close>

theorem negative_score_candidate_dropped:
  "candidates_of (cv_example 0 identity3 [] square_contour 10000) wide_tolerance_config
      (gray_image 400 400)
     = [([Point2f (Finite 100) (Finite 100), Point2f (Finite 200) (Finite 100),
          Point2f (Finite 200) (Finite 200), Point2f (Finite 100) (Finite 200)],
         Finite (- 20000), Finite 10000)]
   \<and> pd_status (detect_paper_internal (cv_example 0 identity3 [] square_contour 10000)
        (gray_image 400 400) (Some wide_tolerance_config)) = 0
   \<and> detect_paper_internal (cv_example 0 identity3 [] square_contour 10000)
        (gray_image 400 400) (Some wide_tolerance_config)
     = paper_result0"
  by (simp add: paper_eval)

section \<open>A selected candidate is always reported\<close>

text \<open>
  C10. Once a best candidate has been selected, the result of paper detection has status 1.
  When the homography from the canonical rectangle comes back empty or not 3x3, the
  homography field keeps its zeros; when no pose is asked for or the pose solver fails,
  \<open>rvec\<close> and \<open>tvec\<close> keep their zeros; in every case the corners, the centre, the area,
  the perimeter and the aspect ratio are those of the selected quadrilateral, computed in
  binary32 in the order of the source.
\<close>

theorem paper_found_despite_solver_failure:
  assumes "best_quad_of cv cfg gray = (best_quad, best_score, best_area)"
    and "best_quad \<noteq> []"
    and "cfg = config_in_force config"
    and "r = detect_paper_internal cv gray config"
    and "H = findHomography cv (canonical_corners cfg best_quad) best_quad"
    and "solved = fst (solvePnP cv (object_points cfg best_quad) best_quad
                         (camera_matrix cfg gray) [0, 0, 0, 0])"
  shows "pd_status r = 1
       \<and> (empty_Mat H \<or> rows H \<noteq> 3 \<or> cols H \<noteq> 3
            \<longrightarrow> pd_homography r = [0, 0, 0, 0, 0, 0, 0, 0, 0])
       \<and> (\<not> flt (Finite 0) (focal_length cfg) \<or> \<not> solved
            \<longrightarrow> pd_rvec r = [0, 0, 0] \<and> pd_tvec r = [0, 0, 0])
       \<and> length best_quad = 4
       \<and> pd_corners r = concat (map (\<lambda>p. [pt_x p, pt_y p]) best_quad)
       \<and> pd_center_x r = fdiv (foldl fadd (Finite 0) (map pt_x best_quad)) (Finite 4)
       \<and> pd_center_y r = fdiv (foldl fadd (Finite 0) (map pt_y best_quad)) (Finite 4)
       \<and> pd_area r = best_area
       \<and> pd_perimeter r
           = foldl fadd (Finite 0)
               [edge_length (best_quad ! 0) (best_quad ! 1),
                edge_length (best_quad ! 1) (best_quad ! 2),
                edge_length (best_quad ! 2) (best_quad ! 3),
                edge_length (best_quad ! 3) (best_quad ! 0)]
       \<and> pd_aspect_ratio r
           = fdiv (fmin (quad_width best_quad) (quad_height best_quad))
                  (fmax (quad_width best_quad) (quad_height best_quad))"
proof -
  have r: "r = paper_result cv cfg gray best_quad best_area paper_result0"
    using assms detect_paper_internal_found by simp
  have len: "length best_quad = 4"
    using assms(1,2) by (rule best_quad_length)
  then obtain p0 p1 p2 p3 where q: "best_quad = [p0, p1, p2, p3]"
    by (rule length4E)
  have hom: "empty_Mat H \<or> rows H \<noteq> 3 \<or> cols H \<noteq> 3
            \<longrightarrow> pd_homography r = [0, 0, 0, 0, 0, 0, 0, 0, 0]"
    using assms(5) by (auto simp add: r paper_result_homography Let_def paper_result0_def)
  have pose: "\<not> flt (Finite 0) (focal_length cfg) \<or> \<not> solved
            \<longrightarrow> pd_rvec r = [0, 0, 0] \<and> pd_tvec r = [0, 0, 0]"
    using assms(6) paper_result_pose [of cfg cv best_quad gray best_area paper_result0]
    by (auto simp add: r paper_result0_def)
  show ?thesis
    using hom pose len paper_result_metrics [OF q, of cv cfg gray best_area paper_result0]
    by (simp add: r paper_result_status) (simp add: q)
qed

theorem paper_found_despite_solver_failure_witness:
  "detect_paper_internal (cv_example 0 no_matrix [] a4_contour 62370) (gray_image 400 400)
      (Some (hg_default_paper_config\<lparr>focal_length := Finite 800\<rparr>))
     = \<lparr>pd_corners = [Finite 100, Finite 50, Finite 310, Finite 50, Finite 310, Finite 347,
                      Finite 100, Finite 347],
        pd_center_x = Finite 205, pd_center_y = Finite (397 / 2),
        pd_homography = [0, 0, 0, 0, 0, 0, 0, 0, 0],
        pd_rvec = [0, 0, 0], pd_tvec = [0, 0, 0], pd_area = Finite 62370,
        pd_perimeter = Finite 1014, pd_aspect_ratio = Finite (5931339 / 8388608),
        pd_status = 1\<rparr>
   \<and> best_quad_of (cv_example 0 no_matrix [] a4_contour 62370)
        (hg_default_paper_config\<lparr>focal_length := Finite 800\<rparr>) (gray_image 400 400)
     = ([Point2f (Finite 100) (Finite 50), Point2f (Finite 310) (Finite 50),
         Point2f (Finite 310) (Finite 347), Point2f (Finite 100) (Finite 347)],
        Finite 62370, Finite 62370)
   \<and> empty_Mat (findHomography (cv_example 0 no_matrix [] a4_contour 62370)
        (canonical_corners (hg_default_paper_config\<lparr>focal_length := Finite 800\<rparr>)
           [Point2f (Finite 100) (Finite 50), Point2f (Finite 310) (Finite 50),
            Point2f (Finite 310) (Finite 347), Point2f (Finite 100) (Finite 347)])
        [Point2f (Finite 100) (Finite 50), Point2f (Finite 310) (Finite 50),
         Point2f (Finite 310) (Finite 347), Point2f (Finite 100) (Finite 347)])
   \<and> \<not> fst (solvePnP (cv_example 0 no_matrix [] a4_contour 62370)
        (object_points (hg_default_paper_config\<lparr>focal_length := Finite 800\<rparr>)
           [Point2f (Finite 100) (Finite 50), Point2f (Finite 310) (Finite 50),
            Point2f (Finite 310) (Finite 347), Point2f (Finite 100) (Finite 347)])
        [Point2f (Finite 100) (Finite 50), Point2f (Finite 310) (Finite 50),
         Point2f (Finite 310) (Finite 347), Point2f (Finite 100) (Finite 347)]
        (camera_matrix (hg_default_paper_config\<lparr>focal_length := Finite 800\<rparr>) (gray_image 400 400))
        [0, 0, 0, 0])"
  using paper_found_despite_solver_failure
    [where cv = "cv_example 0 no_matrix [] a4_contour 62370"
       and gray = "gray_image 400 400"
       and config = "Some (hg_default_paper_config\<lparr>focal_length := Finite 800\<rparr>)"
       and cfg = "hg_default_paper_config\<lparr>focal_length := Finite 800\<rparr>"
       and best_quad = "[Point2f (Finite 100) (Finite 50), Point2f (Finite 310) (Finite 50),
                         Point2f (Finite 310) (Finite 347), Point2f (Finite 100) (Finite 347)]"
       and best_score = "Finite 62370" and best_area = "Finite 62370"
       and r = "detect_paper_internal (cv_example 0 no_matrix [] a4_contour 62370)
                  (gray_image 400 400) (Some (hg_default_paper_config\<lparr>focal_length := Finite 800\<rparr>))"
       and H = no_matrix and solved = False]
  by (simp add: paper_eval)

end
